theory Spec2Isabelle
  imports Complex_Main
begin

section \<open>Errors and numbers\<close>

text \<open>
  Every exception of \<^verbatim>\<open>src/etc/models.py\<close> and of the curve contract is a value.
  \<^verbatim>\<open>ETCError\<close> is the module's own exception class; the others are the Python
  built-ins the code catches or lets through, and the failures the curve contract names.
  Python floats are modelled as exact rationals.
\<close>

datatype error =
    ETCError string
  | KeyError string
  | ValueError
  | TypeError
  | AttributeError string
  | ZeroDivisionError
  | ShapeError
  | DomainError
  | DivisionByZeroError
  | LoaderError string

text \<open>
  Python's \<^verbatim>\<open>x ** n\<close> for a float base and an integer exponent: a zero base with a
  negative exponent raises \<^verbatim>\<open>ZeroDivisionError\<close>.
\<close>

definition py_pow :: "rat \<Rightarrow> int \<Rightarrow> error + rat" where
  "py_pow x n = (if x = 0 \<and> n < 0 then Inl ZeroDivisionError else Inr (power_int x n))"

section \<open>Instrument optics: \<^verbatim>\<open>Instrument._compute_transmission\<close>\<close>

record optics =
  num_ar_coatings :: int
  num_lenses :: int
  num_mirrors :: int
  lens_trans :: rat
  mirror_refl :: rat
  ar_coating :: rat

text \<open>
  \<^verbatim>\<open>
  throughput = self.ar_coating**self.num_ar_coatings
  throughput *= self.lens_trans**self.num_lenses
  throughput *= self.mirror_refl**self.num_mirrors
  return throughput
  \<close>
\<close>

definition compute_transmission :: "'a optics_scheme \<Rightarrow> error + rat" where
  "compute_transmission self =
     (case py_pow (ar_coating self) (num_ar_coatings self) of
        Inl e \<Rightarrow> Inl e
      | Inr t1 \<Rightarrow>
          (case py_pow (lens_trans self) (num_lenses self) of
             Inl e \<Rightarrow> Inl e
           | Inr t2 \<Rightarrow>
               (case py_pow (mirror_refl self) (num_mirrors self) of
                  Inl e \<Rightarrow> Inl e
                | Inr t3 \<Rightarrow> Inr (t1 * t2 * t3))))"

definition pow_raises :: "rat \<Rightarrow> int \<Rightarrow> bool" where
  "pow_raises x n = (x = 0 \<and> n < 0)"

section \<open>Curves\<close>

text \<open>
  The module builds every curve by calling a spectrum class of the \<^verbatim>\<open>synphot\<close>
  library with \<^verbatim>\<open>points\<close>, \<^verbatim>\<open>lookup_table\<close>, \<^verbatim>\<open>keep_neg\<close> and
  \<^verbatim>\<open>meta\<close>; the record keeps those names. The \<^verbatim>\<open>meta\<close> dictionary has the keys
  \<^verbatim>\<open>'header'\<close> (a dictionary of strings) and, for filters, \<^verbatim>\<open>'expr'\<close>.
  Wavelengths are stored in nanometres.
\<close>

type_synonym header = "string \<rightharpoonup> string"

record metadata =
  header :: header
  expr :: "string option"

record curve =
  points :: "rat list"
  lookup_table :: "rat list"
  meta :: metadata

text \<open>
  Modelled from the spec: the curve class itself is not part of \<^verbatim>\<open>src/\<close> (the
  module imports it), so its operations follow section 4.1 of the specification.
  \<open>construct\<close> "fails with ShapeError if lengths mismatch or wavelength is not strictly
  increasing; if keep_negative is false, any value below 0 is clamped to 0".
\<close>

definition construct :: "rat list \<Rightarrow> rat list \<Rightarrow> bool \<Rightarrow> metadata \<Rightarrow> error + curve" where
  "construct wavelength val keep_negative m =
     (if length wavelength \<noteq> length val \<or> \<not> sorted_wrt (<) wavelength then Inl ShapeError
      else Inr \<lparr>points = wavelength,
                lookup_table = (if keep_negative then val else map (max 0) val),
                meta = m\<rparr>)"

text \<open>
  Modelled from the spec: \<open>evaluate\<close> "returns interpolated value(s) at arbitrary
  wavelengths within [min(wavelength), max(wavelength)]; linear interpolation between
  bracketing samples; fails with DomainError ... when queried outside the native domain".
  \<open>interp\<close> walks the samples to the bracketing pair; \<open>None\<close> is "outside".
\<close>

fun interp :: "rat list \<Rightarrow> rat list \<Rightarrow> rat \<Rightarrow> rat option" where
  "interp (x0 # x1 # xs) (y0 # y1 # ys) q =
     (if q < x0 then None
      else if q < x1 then Some (y0 + (y1 - y0) * (q - x0) / (x1 - x0))
      else interp (x1 # xs) (y1 # ys) q)"
| "interp [x0] [y0] q = (if q = x0 then Some y0 else None)"
| "interp _ _ q = None"

definition evaluate :: "curve \<Rightarrow> rat \<Rightarrow> error + rat" where
  "evaluate c q =
     (case interp (points c) (lookup_table c) q of None \<Rightarrow> Inl DomainError | Some v \<Rightarrow> Inr v)"

fun evaluate_all :: "curve \<Rightarrow> rat list \<Rightarrow> error + rat list" where
  "evaluate_all c [] = Inr []"
| "evaluate_all c (q # qs) =
     (case evaluate c q of
        Inl e \<Rightarrow> Inl e
      | Inr v \<Rightarrow> (case evaluate_all c qs of Inl e \<Rightarrow> Inl e | Inr vs \<Rightarrow> Inr (v # vs)))"

text \<open>
  Modelled from the spec: the native domain of a curve, which the module never computes,
  is "[min(wavelength), max(wavelength)]": the closed interval from the first to the
  last sample wavelength, the wavelengths being strictly increasing. A curve without
  samples has an empty domain.
\<close>

definition in_domain :: "curve \<Rightarrow> rat \<Rightarrow> bool" where
  "in_domain c x = (points c \<noteq> [] \<and> hd (points c) \<le> x \<and> x \<le> last (points c))"

text \<open>
  Modelled from the spec: \<open>multiply\<close> with a curve, "the result's grid is the union of
  sample wavelengths restricted to the intersection, each operand evaluated (via
  interpolation) at every resulting grid point, and values multiplied pointwise"; with a
  scalar, "the grid is unchanged and values scale uniformly". The specification does not
  say which metadata a composite carries; the model keeps the receiver's.
\<close>

fun union_grid :: "rat list \<Rightarrow> rat list \<Rightarrow> rat list" where
  "union_grid [] ys = ys"
| "union_grid xs [] = xs"
| "union_grid (x # xs) (y # ys) =
     (if x < y then x # union_grid xs (y # ys)
      else if y < x then y # union_grid (x # xs) ys
      else x # union_grid xs ys)"

definition shared_grid :: "curve \<Rightarrow> curve \<Rightarrow> rat list" where
  "shared_grid a b = filter (\<lambda>x. in_domain a x \<and> in_domain b x) (union_grid (points a) (points b))"

definition multiply :: "curve \<Rightarrow> curve \<Rightarrow> error + curve" where
  "multiply a b =
     (case evaluate_all a (shared_grid a b) of
        Inl e \<Rightarrow> Inl e
      | Inr va \<Rightarrow>
          (case evaluate_all b (shared_grid a b) of
             Inl e \<Rightarrow> Inl e
           | Inr vb \<Rightarrow>
               Inr \<lparr>points = shared_grid a b, lookup_table = map2 (*) va vb, meta = meta a\<rparr>))"

definition multiply_scalar :: "curve \<Rightarrow> rat \<Rightarrow> curve" where
  "multiply_scalar a s = a\<lparr>lookup_table := map (\<lambda>v. v * s) (lookup_table a)\<rparr>"

text \<open>
  Modelled from the spec: \<open>divide\<close> is "symmetric to multiply; fails with
  DivisionByZeroError if any sample of other is exactly zero within the shared domain".
  The model fails when the divisor is zero at any point of the shared grid, which holds
  every sample of the divisor that lies in the shared domain.
\<close>

definition divide_curve :: "curve \<Rightarrow> curve \<Rightarrow> error + curve" where
  "divide_curve a b =
     (case evaluate_all a (shared_grid a b) of
        Inl e \<Rightarrow> Inl e
      | Inr va \<Rightarrow>
          (case evaluate_all b (shared_grid a b) of
             Inl e \<Rightarrow> Inl e
           | Inr vb \<Rightarrow>
               if 0 \<in> set vb then Inl DivisionByZeroError
               else Inr \<lparr>points = shared_grid a b, lookup_table = map2 (/) va vb, meta = meta a\<rparr>))"

definition divide_scalar :: "curve \<Rightarrow> rat \<Rightarrow> error + curve" where
  "divide_scalar a s =
     (if s = 0 then Inl DivisionByZeroError
      else Inr (a\<lparr>lookup_table := map (\<lambda>v. v / s) (lookup_table a)\<rparr>))"

text \<open>
  Modelled from the spec: \<open>peak\<close> "returns the maximum value over the given subset or
  the full native grid". The maximum of no values is an error, as \<^verbatim>\<open>max\<close> of an empty
  array is.
\<close>

definition max_of :: "rat list \<Rightarrow> error + rat" where
  "max_of vs = (case vs of [] \<Rightarrow> Inl ValueError | v # rest \<Rightarrow> Inr (fold max rest v))"

definition peak :: "curve \<Rightarrow> rat list option \<Rightarrow> error + rat" where
  "peak c wavelength_subset =
     (case evaluate_all c (case wavelength_subset of None \<Rightarrow> points c | Some qs \<Rightarrow> qs) of
        Inl e \<Rightarrow> Inl e
      | Inr vs \<Rightarrow> max_of vs)"

text \<open>A curve is well formed when it satisfies what \<open>construct\<close> checks.\<close>

definition well_formed :: "curve \<Rightarrow> bool" where
  "well_formed c = (length (points c) = length (lookup_table c) \<and> sorted_wrt (<) (points c))"

text \<open>
  \<^verbatim>\<open>np.arange(300, 1501, 1) * u.nm\<close>, the grid of every curve made from a scalar, and
  \<^verbatim>\<open>len(wavelengths) * [v,]\<close>.
\<close>

definition wavelengths :: "rat list" where
  "wavelengths = map of_int [300..1500]"

definition uniform :: "rat \<Rightarrow> rat list" where
  "uniform v = replicate (length wavelengths) v"

section \<open>The environment: loaders, files and configuration\<close>

text \<open>
  File parsing, the file system, environment variables and the configuration module
  \<^verbatim>\<open>etc.config\<close> are outside \<^verbatim>\<open>src/etc/models.py\<close>; the model takes them as the
  fields of an environment. A loader returns \<^verbatim>\<open>(header, wavelengths, throughput)\<close> or
  raises. The model converts the wavelengths to nanometres from the unit the call names.
\<close>

datatype wave_unit = NM | MICRON | ANGSTROM

datatype flux_unit = DIMENSIONLESS | PERCENT | THROUGHPUT

type_synonym table = "header \<times> rat list \<times> rat list"

datatype conf_item =
    lco_u_file | lco_g_file | lco_r_file | lco_i_file | lco_zs_file
  | lco_c2_file | lco_c3_file | lco_oh_file | lco_cn_file | lco_nh2_file | lco_cr_file
  | lco_U_file | lco_B_file | lco_V_file | lco_R_file | lco_I_file
  | wht_U_file | wht_B_file | wht_V_file | wht_R_file | wht_I_file

record env =
  float_of_str :: "string \<Rightarrow> rat option"
  expandvars :: "string \<Rightarrow> string"
  path_exists :: "string \<Rightarrow> bool"
  pkg_file :: "string \<Rightarrow> string"
  read_spec :: "string \<Rightarrow> string \<Rightarrow> string \<Rightarrow> wave_unit \<Rightarrow> flux_unit \<Rightarrow> error + table"
  read_ascii_spec :: "string \<Rightarrow> wave_unit \<Rightarrow> flux_unit \<Rightarrow> error + table"
  read_remote_spec :: "string \<Rightarrow> wave_unit \<Rightarrow> flux_unit \<Rightarrow> error + table"
  qtable_read :: "string \<Rightarrow> error + (string \<times> rat list) list"
  conf_value :: "conf_item \<Rightarrow> string"
  conf_description :: "conf_item \<Rightarrow> string"
  default_keep_neg :: bool

definition to_nm :: "wave_unit \<Rightarrow> rat \<Rightarrow> rat" where
  "to_nm u x = (case u of NM \<Rightarrow> x | MICRON \<Rightarrow> 1000 * x | ANGSTROM \<Rightarrow> x / 10)"

text \<open>
  A keyword argument that the code takes as "a number or a string":
  \<^verbatim>\<open>float(x)\<close> of a number is the number, of a string its parse or \<^verbatim>\<open>ValueError\<close>.
\<close>

datatype arg = Num rat | Str string

definition py_float :: "env \<Rightarrow> arg \<Rightarrow> error + rat" where
  "py_float ev a =
     (case a of
        Num r \<Rightarrow> Inr r
      | Str s \<Rightarrow> (case float_of_str ev s of None \<Rightarrow> Inl ValueError | Some r \<Rightarrow> Inr r))"

text \<open>Strings: \<^verbatim>\<open>s.upper()\<close>, \<^verbatim>\<open>s.lower()\<close> and \<^verbatim>\<open>sub in s\<close> on ASCII text.\<close>

definition upper_char :: "char \<Rightarrow> char" where
  "upper_char c =
     (let n = (of_char c :: nat) in if 97 \<le> n \<and> n \<le> 122 then char_of (n - 32) else c)"

definition lower_char :: "char \<Rightarrow> char" where
  "lower_char c =
     (let n = (of_char c :: nat) in if 65 \<le> n \<and> n \<le> 90 then char_of (n + 32) else c)"

definition upper :: "string \<Rightarrow> string" where
  "upper s = map upper_char s"

definition lower :: "string \<Rightarrow> string" where
  "lower s = map lower_char s"

fun starts_with :: "string \<Rightarrow> string \<Rightarrow> bool" where
  "starts_with [] s = True"
| "starts_with (p # ps) [] = False"
| "starts_with (p # ps) (c # cs) = (p = c \<and> starts_with ps cs)"

fun contains :: "string \<Rightarrow> string \<Rightarrow> bool" where
  "contains sub [] = (sub = [])"
| "contains sub (c # cs) = (starts_with sub (c # cs) \<or> contains sub cs)"

section \<open>\<^verbatim>\<open>Site\<close>\<close>

record site =
  site_name :: string
  altitude :: "rat option"
  latitude :: "rat option"
  longitude :: "rat option"
  site_transmission :: "curve option"

record site_args =
  arg_name :: "string option"
  arg_altitude :: "rat option"
  arg_latitude :: "rat option"
  arg_longitude :: "rat option"
  arg_transmission :: "arg option"

text \<open>One call of \<^verbatim>\<open>specio.read_spec\<close>, as it is logged by the model.\<close>

record read_call =
  rc_file :: string
  rc_wave_col :: string
  rc_flux_col :: string
  rc_wave_unit :: wave_unit
  rc_flux_unit :: flux_unit

definition do_read_spec :: "env \<Rightarrow> read_call \<Rightarrow> error + table" where
  "do_read_spec ev rc =
     read_spec ev (rc_file rc) (rc_wave_col rc) (rc_flux_col rc) (rc_wave_unit rc) (rc_flux_unit rc)"

definition primary_read :: "string \<Rightarrow> read_call" where
  "primary_read sky_file =
     \<lparr>rc_file = sky_file, rc_wave_col = ''lam'', rc_flux_col = ''trans'',
      rc_wave_unit = NM, rc_flux_unit = DIMENSIONLESS\<rparr>"

definition fallback_read :: "string \<Rightarrow> read_call" where
  "fallback_read sky_file =
     \<lparr>rc_file = sky_file, rc_wave_col = ''lam'', rc_flux_col = ''flux'',
      rc_wave_unit = MICRON, rc_flux_unit = DIMENSIONLESS\<rparr>"

text \<open>
  \<^verbatim>\<open>
  try:
      header, wavelengths, throughput = specio.read_spec(sky_file, wave_col='lam',
          flux_col='trans', wave_unit=u.nm, flux_unit=u.dimensionless_unscaled)
  except KeyError:
      header, wavelengths, throughput = specio.read_spec(sky_file, wave_col='lam',
          flux_col='flux', wave_unit=u.micron, flux_unit=u.dimensionless_unscaled)
  \<close>
  The result is the list of the reads made, in order, with the table (in nanometres) or
  the exception that leaves the block.
\<close>

definition in_nm :: "wave_unit \<Rightarrow> table \<Rightarrow> table" where
  "in_nm u t = (case t of (h, w, f) \<Rightarrow> (h, map (to_nm u) w, f))"

definition read_sky_file :: "env \<Rightarrow> string \<Rightarrow> read_call list \<times> (error + table)" where
  "read_sky_file ev sky_file =
     (case do_read_spec ev (primary_read sky_file) of
        Inr t \<Rightarrow> ([primary_read sky_file], Inr (in_nm NM t))
      | Inl (KeyError k) \<Rightarrow>
          ([primary_read sky_file, fallback_read sky_file],
           (case do_read_spec ev (fallback_read sky_file) of
              Inr t \<Rightarrow> Inr (in_nm MICRON t)
            | Inl e \<Rightarrow> Inl e))
      | Inl e \<Rightarrow> ([primary_read sky_file], Inl e))"

definition site_base :: "site_args \<Rightarrow> site" where
  "site_base a =
     \<lparr>site_name = (case arg_name a of None \<Rightarrow> ''Undefined'' | Some n \<Rightarrow> n),
      altitude = arg_altitude a, latitude = arg_latitude a, longitude = arg_longitude a,
      site_transmission = None\<rparr>"

definition with_transmission :: "site \<Rightarrow> table \<Rightarrow> error + site" where
  "with_transmission s t =
     (case t of (h, w, f) \<Rightarrow>
        (case construct w f False \<lparr>header = h, expr = None\<rparr> of
           Inl e \<Rightarrow> Inl e
         | Inr c \<Rightarrow> Inr (s\<lparr>site_transmission := Some c\<rparr>)))"

text \<open>
  \<^verbatim>\<open>Site.__init__\<close>: a transmission that \<^verbatim>\<open>float\<close> accepts gives a uniform curve on
  the 300 to 1500 nm grid; on \<^verbatim>\<open>ValueError\<close> the argument is a file name. The reads of
  the sky file are returned with the outcome.
\<close>

definition Site_init :: "env \<Rightarrow> site_args \<Rightarrow> read_call list \<times> (error + site)" where
  "Site_init ev a =
     (case arg_transmission a of
        None \<Rightarrow> ([], Inr (site_base a))
      | Some tr \<Rightarrow>
          (case py_float ev tr of
             Inr transmission \<Rightarrow>
               ([], with_transmission (site_base a) (Map.empty, wavelengths, uniform transmission))
           | Inl ValueError \<Rightarrow>
               (case tr of
                  Str s \<Rightarrow>
                    (case read_sky_file ev (expandvars ev s) of
                       (calls, Inl e) \<Rightarrow> (calls, Inl e)
                     | (calls, Inr t) \<Rightarrow> (calls, with_transmission (site_base a) t))
                | Num r \<Rightarrow> ([], Inl ValueError))
           | Inl e \<Rightarrow> ([], Inl e)))"

section \<open>\<^verbatim>\<open>Telescope\<close>\<close>

record telescope =
  tel_name :: string
  tel_size :: rat
  area :: rat
  tel_num_mirrors :: int
  reflectivity :: curve

record telescope_args =
  targ_name :: "string option"
  targ_size :: rat
  targ_area :: rat
  targ_num_mirrors :: int
  targ_reflectivity :: "arg option"

text \<open>
  \<^verbatim>\<open>
  file_path = os.path.expandvars(name)
  if not os.path.exists(file_path):
      file_path = pkg_resources.files('etc.data').joinpath(name)
  \<close>
\<close>

definition resolve_path :: "env \<Rightarrow> string \<Rightarrow> string" where
  "resolve_path ev name =
     (if path_exists ev (expandvars ev name) then expandvars ev name else pkg_file ev name)"

definition read_ascii_nm :: "env \<Rightarrow> string \<Rightarrow> flux_unit \<Rightarrow> error + table" where
  "read_ascii_nm ev file_path fu =
     (case read_ascii_spec ev file_path NM fu of Inl e \<Rightarrow> Inl e | Inr t \<Rightarrow> Inr (in_nm NM t))"

text \<open>
  \<^verbatim>\<open>
  self.reflectivity = mirror_se
  for x in range(0, self.num_mirrors-1):
      self.reflectivity *= mirror_se
  \<close>
  \<open>mul_times k acc mirror_se\<close> runs \<open>k\<close> iterations of the loop body from \<open>acc\<close>.
\<close>

fun mul_times :: "nat \<Rightarrow> curve \<Rightarrow> curve \<Rightarrow> error + curve" where
  "mul_times 0 acc mirror_se = Inr acc"
| "mul_times (Suc k) acc mirror_se =
     (case multiply acc mirror_se of
        Inl e \<Rightarrow> Inl e
      | Inr acc' \<Rightarrow> mul_times k acc' mirror_se)"

definition mirror_table :: "env \<Rightarrow> telescope_args \<Rightarrow> error + table" where
  "mirror_table ev a =
     (let r = (case targ_reflectivity a of None \<Rightarrow> Num (91 / 100) | Some r \<Rightarrow> r) in
      case py_float ev r of
        Inr x \<Rightarrow> Inr (Map.empty, wavelengths, uniform x)
      | Inl ValueError \<Rightarrow>
          (case r of
             Str s \<Rightarrow> read_ascii_nm ev (resolve_path ev s) PERCENT
           | Num x \<Rightarrow> Inl ValueError)
      | Inl e \<Rightarrow> Inl e)"

definition Telescope_init :: "env \<Rightarrow> telescope_args \<Rightarrow> error + telescope" where
  "Telescope_init ev a =
     (case mirror_table ev a of
        Inl e \<Rightarrow> Inl e
      | Inr (h, w, refl_samples) \<Rightarrow>
          (case construct w refl_samples True \<lparr>header = h, expr = None\<rparr> of
             Inl e \<Rightarrow> Inl e
           | Inr mirror_se \<Rightarrow>
               (case mul_times (nat (targ_num_mirrors a - 1)) mirror_se mirror_se of
                  Inl e \<Rightarrow> Inl e
                | Inr r \<Rightarrow>
                    Inr \<lparr>tel_name = (case targ_name a of None \<Rightarrow> ''Undefined'' | Some n \<Rightarrow> n),
                         tel_size = targ_size a, area = targ_area a,
                         tel_num_mirrors = targ_num_mirrors a, reflectivity = r\<rparr>)))"

text \<open>
  \<^verbatim>\<open>
  x = self.reflectivity._validate_wavelengths(wavelengths)
  return self.reflectivity(x).max()
  \<close>
  With \<^verbatim>\<open>wavelengths=None\<close> the curve's own grid is sampled.
\<close>

definition tpeak :: "telescope \<Rightarrow> rat list option \<Rightarrow> error + rat" where
  "tpeak self wl = peak (reflectivity self) wl"

section \<open>\<^verbatim>\<open>Instrument\<close>\<close>

text \<open>A Python value that can stand on either side of \<^verbatim>\<open>*\<close> in this module.\<close>

datatype pyval =
    Number rat
  | CurveV curve
  | SiteRef nat
  | TelescopeRef nat
  | InstrumentRef nat

record instrument = optics +
  inst_name :: string
  inst_type :: string
  transmission :: curve
  filterlist :: "string list"
  filterset :: "(string \<times> curve) list"
  ccd :: pyval

record instrument_args =
  iarg_name :: "string option"
  iarg_inst_type :: string
  iarg_num_ar_coatings :: "int option"
  iarg_num_inst_lenses :: "int option"
  iarg_num_inst_mirrors :: "int option"
  iarg_inst_lens_trans :: "rat option"
  iarg_inst_mirror_refl :: "rat option"
  iarg_inst_ar_coating_refl :: "rat option"
  iarg_filterlist :: "string list option"
  iarg_ccd :: "arg option"

text \<open>
  \<^verbatim>\<open>_read_lco_filter_csv\<close>: the table is read, three columns are renamed
  (\<^verbatim>\<open>rename_column\<close> raises \<^verbatim>\<open>KeyError\<close> for a column that is not there), and the
  function returns an empty header with the \<^verbatim>\<open>Wavelength\<close> and
  \<^verbatim>\<open>Trans_measured\<close> columns.
\<close>

definition rename_column ::
  "string \<Rightarrow> string \<Rightarrow> (string \<times> rat list) list \<Rightarrow> error + (string \<times> rat list) list" where
  "rename_column old new t =
     (if old \<in> fst ` set t then Inr (map (\<lambda>(k, v). (if k = old then new else k, v)) t)
      else Inl (KeyError old))"

definition column :: "(string \<times> rat list) list \<Rightarrow> string \<Rightarrow> error + rat list" where
  "column t k = (case map_of t k of None \<Rightarrow> Inl (KeyError k) | Some v \<Rightarrow> Inr v)"

definition read_lco_filter_csv :: "env \<Rightarrow> string \<Rightarrow> error + table" where
  "read_lco_filter_csv ev csv_filter =
     (case qtable_read ev csv_filter of
        Inl e \<Rightarrow> Inl e
      | Inr t0 \<Rightarrow>
          (case rename_column ''ILDIALCT'' ''Wavelength'' t0 of
             Inl e \<Rightarrow> Inl e
           | Inr t1 \<Rightarrow>
               (case rename_column ''ilab_v1'' ''Trans_measured'' t1 of
                  Inl e \<Rightarrow> Inl e
                | Inr t2 \<Rightarrow>
                    (case rename_column ''FITS/CSV file dialect'' ''Trans_filtered'' t2 of
                       Inl e \<Rightarrow> Inl e
                     | Inr t3 \<Rightarrow>
                         (case column t3 ''Wavelength'' of
                            Inl e \<Rightarrow> Inl e
                          | Inr w \<Rightarrow>
                              (case column t3 ''Trans_measured'' of
                                 Inl e \<Rightarrow> Inl e
                               | Inr f \<Rightarrow> Inr (Map.empty, w, f)))))))"

text \<open>
  \<^verbatim>\<open>
  if len(filtername) == 2 and filtername[1] == 'p':
      filtername = filtername[0]
  \<close>
\<close>

definition normalise_token :: "string \<Rightarrow> string" where
  "normalise_token filtername =
     (if length filtername = 2 \<and> filtername ! 1 = CHR ''p'' then [filtername ! 0] else filtername)"

text \<open>The dictionary \<^verbatim>\<open>mapping\<close> of \<^verbatim>\<open>set_bandpass_from_filter\<close>, in its order.\<close>

definition mapping :: "(string \<times> conf_item) list" where
  "mapping =
     [(''u'', lco_u_file), (''g'', lco_g_file), (''r'', lco_r_file), (''i'', lco_i_file),
      (''z'', lco_zs_file), (''zs'', lco_zs_file),
      (''C2'', lco_c2_file), (''C3'', lco_c3_file), (''OH'', lco_oh_file),
      (''CN'', lco_cn_file), (''NH2'', lco_nh2_file), (''CR'', lco_cr_file),
      (''U'', lco_U_file), (''B'', lco_B_file), (''V'', lco_V_file),
      (''R'', lco_R_file), (''I'', lco_I_file),
      (''WHT_U'', wht_U_file), (''WHT_B'', wht_B_file), (''WHT_V'', wht_V_file),
      (''WHT_R'', wht_R_file), (''WHT_I'', wht_I_file)]"

definition invalid_filter :: "string \<Rightarrow> error" where
  "invalid_filter filtername = ETCError (''Filter name '' @ filtername @ '' is invalid.'')"

text \<open>
  The three branches of \<^verbatim>\<open>set_bandpass_from_filter\<close> that read the resource, in the
  order the code tests them.
\<close>

definition load_filter :: "env \<Rightarrow> conf_item \<Rightarrow> error + table" where
  "load_filter ev filename =
     (if contains ''LCO_'' (upper (conf_value ev filename))
         \<and> contains ''.csv'' (lower (conf_value ev filename))
      then (case read_lco_filter_csv ev (pkg_file ev (expandvars ev (conf_value ev filename))) of
              Inl e \<Rightarrow> Inl e
            | Inr t \<Rightarrow> Inr (in_nm NM t))
      else if contains ''http://svo'' (lower (conf_value ev filename))
      then (case read_remote_spec ev (conf_value ev filename) ANGSTROM THROUGHPUT of
              Inl e \<Rightarrow> Inl e
            | Inr t \<Rightarrow> Inr (in_nm ANGSTROM t))
      else read_ascii_nm ev (pkg_file ev (expandvars ev (conf_value ev filename))) THROUGHPUT)"

text \<open>
  \<^verbatim>\<open>set_bandpass_from_filter\<close>. The header gets the resource under
  \<^verbatim>\<open>'filename'\<close> and its description under \<^verbatim>\<open>'descrip'\<close>; \<^verbatim>\<open>'expr'\<close> is the
  token after normalisation. The constructor call names no \<^verbatim>\<open>keep_neg\<close>, so the
  library's default applies, a field of the environment.
\<close>

definition lookup_resource :: "string \<Rightarrow> error + conf_item" where
  "lookup_resource key =
     (case map_of mapping key of None \<Rightarrow> Inl (invalid_filter key) | Some f \<Rightarrow> Inr f)"

definition set_bandpass_from_filter :: "env \<Rightarrow> string \<Rightarrow> error + curve" where
  "set_bandpass_from_filter ev filtername =
     (case lookup_resource (normalise_token filtername) of
        Inl e \<Rightarrow> Inl e
      | Inr filename \<Rightarrow>
          (case load_filter ev filename of
             Inl e \<Rightarrow> Inl e
           | Inr (h, w, throughput) \<Rightarrow>
               construct w throughput (default_keep_neg ev)
                 \<lparr>header = h(''filename'' \<mapsto> conf_value ev filename,
                              ''descrip'' \<mapsto> conf_description ev filename),
                  expr = Some (normalise_token filtername)\<rparr>))"

text \<open>
  \<^verbatim>\<open>
  for filtername in self.filterlist:
      if filtername not in self.filterset:
          self.filterset[filtername] = self.set_bandpass_from_filter(filtername)
  \<close>
\<close>

fun fill_filterset ::
  "env \<Rightarrow> string list \<Rightarrow> (string \<times> curve) list \<Rightarrow> error + (string \<times> curve) list" where
  "fill_filterset ev [] fs = Inr fs"
| "fill_filterset ev (filtername # rest) fs =
     (if map_of fs filtername \<noteq> None then fill_filterset ev rest fs
      else (case set_bandpass_from_filter ev filtername of
              Inl e \<Rightarrow> Inl e
            | Inr c \<Rightarrow> fill_filterset ev rest (fs @ [(filtername, c)])))"

text \<open>
  \<^verbatim>\<open>
  if throughput.mean() > 1.0:
      throughput /= 100.0
      header['notes'] = 'Divided by 100.0 to convert from percentage'
  \<close>
  The mean of an empty array is not a number, and no comparison with it holds.
\<close>

definition mean :: "rat list \<Rightarrow> rat option" where
  "mean xs = (if xs = [] then None else Some (sum_list xs / of_nat (length xs)))"

definition mean_exceeds_one :: "rat list \<Rightarrow> bool" where
  "mean_exceeds_one xs = (case mean xs of None \<Rightarrow> False | Some m \<Rightarrow> m > 1)"

definition rescale_percent :: "table \<Rightarrow> table" where
  "rescale_percent t =
     (case t of (h, w, throughput) \<Rightarrow>
        if mean_exceeds_one throughput
        then (h(''notes'' \<mapsto> ''Divided by 100.0 to convert from percentage''), w,
              map (\<lambda>x. x / 100) throughput)
        else (h, w, throughput))"

text \<open>
  The detector: a number is kept as it is; anything else is a file name, whose table is
  rescaled, tagged with the file name and made a curve with \<^verbatim>\<open>keep_neg=False\<close>.
\<close>

definition load_ccd :: "env \<Rightarrow> arg option \<Rightarrow> error + pyval" where
  "load_ccd ev a =
     (case (case a of None \<Rightarrow> Num (9 / 10) | Some q \<Rightarrow> q) of
        Num q \<Rightarrow> Inr (Number q)
      | Str ccd_qe \<Rightarrow>
          (case read_ascii_nm ev (resolve_path ev ccd_qe) THROUGHPUT of
             Inl e \<Rightarrow> Inl e
           | Inr t \<Rightarrow>
               (case rescale_percent t of (h, w, throughput) \<Rightarrow>
                  (case construct w throughput False
                          \<lparr>header = h(''filename'' \<mapsto> ccd_qe), expr = None\<rparr> of
                     Inl e \<Rightarrow> Inl e
                   | Inr c \<Rightarrow> Inr (CurveV c)))))"

definition instrument_optics :: "instrument_args \<Rightarrow> optics" where
  "instrument_optics a =
     \<lparr>num_ar_coatings = (case iarg_num_ar_coatings a of None \<Rightarrow> 2 | Some n \<Rightarrow> n),
      num_lenses = (case iarg_num_inst_lenses a of None \<Rightarrow> 1 | Some n \<Rightarrow> n),
      num_mirrors = (case iarg_num_inst_mirrors a of None \<Rightarrow> 0 | Some n \<Rightarrow> n),
      lens_trans = (case iarg_inst_lens_trans a of None \<Rightarrow> 9 / 10 | Some x \<Rightarrow> x),
      mirror_refl = (case iarg_inst_mirror_refl a of None \<Rightarrow> 397 / 400 | Some x \<Rightarrow> x),
      ar_coating = (case iarg_inst_ar_coating_refl a of None \<Rightarrow> 99 / 100 | Some x \<Rightarrow> x)\<rparr>"

definition Instrument_init :: "env \<Rightarrow> instrument_args \<Rightarrow> error + instrument" where
  "Instrument_init ev a =
     (case compute_transmission (instrument_optics a) of
        Inl e \<Rightarrow> Inl e
      | Inr t \<Rightarrow>
          (case construct wavelengths (uniform t) True \<lparr>header = Map.empty, expr = None\<rparr> of
             Inl e \<Rightarrow> Inl e
           | Inr tc \<Rightarrow>
               (case fill_filterset ev
                       (case iarg_filterlist a of None \<Rightarrow> [] | Some l \<Rightarrow> l) [] of
                  Inl e \<Rightarrow> Inl e
                | Inr fs \<Rightarrow>
                    (case load_ccd ev (iarg_ccd a) of
                       Inl e \<Rightarrow> Inl e
                     | Inr q \<Rightarrow>
                         Inr \<lparr>num_ar_coatings = num_ar_coatings (instrument_optics a),
                              num_lenses = num_lenses (instrument_optics a),
                              num_mirrors = num_mirrors (instrument_optics a),
                              lens_trans = lens_trans (instrument_optics a),
                              mirror_refl = mirror_refl (instrument_optics a),
                              ar_coating = ar_coating (instrument_optics a),
                              inst_name = (case iarg_name a of None \<Rightarrow> ''Undefined'' | Some n \<Rightarrow> n),
                              inst_type =
                                (if upper (iarg_inst_type a) \<in> {''IMAGER'', ''SPECTROGRAPH''}
                                 then upper (iarg_inst_type a) else ''IMAGER''),
                              transmission = tc,
                              filterlist = (case iarg_filterlist a of None \<Rightarrow> [] | Some l \<Rightarrow> l),
                              filterset = fs,
                              ccd = q\<rparr>))))"

text \<open>
  Modelled from the spec: the curve's \<^verbatim>\<open>__mul__\<close> and \<^verbatim>\<open>__truediv__\<close>, which
  the module calls but does not define, are \<open>multiply\<close> and \<open>divide\<close> of a
  "Curve | scalar"; the model answers any other operand with \<^verbatim>\<open>TypeError\<close>.
\<close>

definition curve_mul :: "curve \<Rightarrow> pyval \<Rightarrow> error + curve" where
  "curve_mul c other =
     (case other of
        Number s \<Rightarrow> Inr (multiply_scalar c s)
      | CurveV d \<Rightarrow> multiply c d
      | _ \<Rightarrow> Inl TypeError)"

definition curve_truediv :: "curve \<Rightarrow> pyval \<Rightarrow> error + curve" where
  "curve_truediv c other =
     (case other of
        Number s \<Rightarrow> divide_scalar c s
      | CurveV d \<Rightarrow> divide_curve c d
      | _ \<Rightarrow> Inl TypeError)"

text \<open>
  \<^verbatim>\<open>
  if filtername not in self.filterlist or filtername not in self.filterset:
      raise ETCError('Filter name {0} is invalid.'.format(filtername))
  return self.filterset[filtername] * self.transmission * self.ccd
  \<close>
\<close>

definition throughput :: "instrument \<Rightarrow> string \<Rightarrow> error + curve" where
  "throughput self filtername =
     (if filtername \<notin> set (filterlist self) \<or> map_of (filterset self) filtername = None
      then Inl (invalid_filter filtername)
      else (case map_of (filterset self) filtername of
              None \<Rightarrow> Inl (KeyError filtername)
            | Some fc \<Rightarrow>
                (case curve_mul fc (CurveV (transmission self)) of
                   Inl e \<Rightarrow> Inl e
                 | Inr p \<Rightarrow> curve_mul p (ccd self))))"

section \<open>The operators of \<^verbatim>\<open>Site\<close> and \<^verbatim>\<open>Telescope\<close>\<close>

text \<open>
  The operator methods assign to an attribute of \<^verbatim>\<open>self\<close> and return \<^verbatim>\<open>self\<close>, so
  the objects live in a store and values refer to them by address. A reference to an
  address the store does not hold cannot arise in Python; the model answers it with
  \<^verbatim>\<open>AttributeError\<close>.
\<close>

record store =
  sites :: "nat \<rightharpoonup> site"
  telescopes :: "nat \<rightharpoonup> telescope"
  instruments :: "nat \<rightharpoonup> instrument"

text \<open>
  \<^verbatim>\<open>
  if isinstance(other, Telescope):
      other = other.reflectivity
  if isinstance(other, Instrument):
      other = other.transmission
  \<close>
\<close>

definition unwrap :: "store \<Rightarrow> pyval \<Rightarrow> error + pyval" where
  "unwrap st other =
     (case other of
        TelescopeRef t \<Rightarrow>
          (case telescopes st t of
             None \<Rightarrow> Inl (AttributeError ''reflectivity'')
           | Some tel \<Rightarrow> Inr (CurveV (reflectivity tel)))
      | InstrumentRef i \<Rightarrow>
          (case instruments st i of
             None \<Rightarrow> Inl (AttributeError ''transmission'')
           | Some ins \<Rightarrow> Inr (CurveV (transmission ins)))
      | _ \<Rightarrow> Inr other)"

text \<open>
  \<^verbatim>\<open>
  newcls = self
  newcls.transmission = self.transmission.__mul__(other)
  return newcls
  \<close>
  \<open>set_transmission\<close> is the assignment to the attribute of the object at \<open>self\<close>.
\<close>

definition set_transmission :: "nat \<Rightarrow> curve \<Rightarrow> store \<Rightarrow> store" where
  "set_transmission self c st =
     (case sites st self of
        None \<Rightarrow> st
      | Some s \<Rightarrow> st\<lparr>sites := (sites st)(self \<mapsto> s\<lparr>site_transmission := Some c\<rparr>)\<rparr>)"

definition get_transmission :: "nat \<Rightarrow> store \<Rightarrow> error + curve" where
  "get_transmission self st =
     (case sites st self of
        None \<Rightarrow> Inl (AttributeError ''transmission'')
      | Some s \<Rightarrow>
          (case site_transmission s of
             None \<Rightarrow> Inl (AttributeError ''transmission'')
           | Some c \<Rightarrow> Inr c))"

definition Site_mul :: "nat \<Rightarrow> pyval \<Rightarrow> store \<Rightarrow> error + (pyval \<times> store)" where
  "Site_mul self other st =
     (case unwrap st other of
        Inl e \<Rightarrow> Inl e
      | Inr other' \<Rightarrow>
          (case get_transmission self st of
             Inl e \<Rightarrow> Inl e
           | Inr t \<Rightarrow>
               (case curve_mul t other' of
                  Inl e \<Rightarrow> Inl e
                | Inr c \<Rightarrow> Inr (SiteRef self, set_transmission self c st))))"

definition Site_rmul :: "nat \<Rightarrow> pyval \<Rightarrow> store \<Rightarrow> error + (pyval \<times> store)" where
  "Site_rmul self other st = Site_mul self other st"

definition Site_truediv :: "nat \<Rightarrow> pyval \<Rightarrow> store \<Rightarrow> error + (pyval \<times> store)" where
  "Site_truediv self other st =
     (case get_transmission self st of
        Inl e \<Rightarrow> Inl e
      | Inr t \<Rightarrow>
          (case curve_truediv t other of
             Inl e \<Rightarrow> Inl e
           | Inr c \<Rightarrow> Inr (SiteRef self, set_transmission self c st)))"

definition set_reflectivity :: "nat \<Rightarrow> curve \<Rightarrow> store \<Rightarrow> store" where
  "set_reflectivity self c st =
     (case telescopes st self of
        None \<Rightarrow> st
      | Some t \<Rightarrow> st\<lparr>telescopes := (telescopes st)(self \<mapsto> t\<lparr>reflectivity := c\<rparr>)\<rparr>)"

definition get_reflectivity :: "nat \<Rightarrow> store \<Rightarrow> error + curve" where
  "get_reflectivity self st =
     (case telescopes st self of
        None \<Rightarrow> Inl (AttributeError ''reflectivity'')
      | Some t \<Rightarrow> Inr (reflectivity t))"

text \<open>
  \<^verbatim>\<open>
  newcls = self
  newcls.reflectivity = self.reflectivity.__mul__(other)
  return newcls
  \<close>
\<close>

definition Telescope_mul :: "nat \<Rightarrow> pyval \<Rightarrow> store \<Rightarrow> error + (pyval \<times> store)" where
  "Telescope_mul self other st =
     (case get_reflectivity self st of
        Inl e \<Rightarrow> Inl e
      | Inr r \<Rightarrow>
          (case curve_mul r other of
             Inl e \<Rightarrow> Inl e
           | Inr c \<Rightarrow> Inr (TelescopeRef self, set_reflectivity self c st)))"

definition Telescope_rmul :: "nat \<Rightarrow> pyval \<Rightarrow> store \<Rightarrow> error + (pyval \<times> store)" where
  "Telescope_rmul self other st = Telescope_mul self other st"

definition Telescope_truediv :: "nat \<Rightarrow> pyval \<Rightarrow> store \<Rightarrow> error + (pyval \<times> store)" where
  "Telescope_truediv self other st =
     (case get_reflectivity self st of
        Inl e \<Rightarrow> Inl e
      | Inr r \<Rightarrow>
          (case curve_truediv r other of
             Inl e \<Rightarrow> Inl e
           | Inr c \<Rightarrow> Inr (TelescopeRef self, set_reflectivity self c st)))"

text \<open>
  Python's \<^verbatim>\<open>a * b\<close> over these values: the left operand's \<^verbatim>\<open>__mul__\<close> is called
  when its class has one; when it has none, or (for a number) it does not know the right
  operand, the right operand's \<^verbatim>\<open>__rmul__\<close> is called; when that is missing too the
  operation is a \<^verbatim>\<open>TypeError\<close>. \<^verbatim>\<open>Site\<close> and \<^verbatim>\<open>Telescope\<close> define both methods,
  \<^verbatim>\<open>Instrument\<close> defines neither.
\<close>

definition reflected_mul :: "pyval \<Rightarrow> pyval \<Rightarrow> store \<Rightarrow> error + (pyval \<times> store)" where
  "reflected_mul a b st =
     (case b of
        SiteRef s \<Rightarrow> Site_rmul s a st
      | TelescopeRef t \<Rightarrow> Telescope_rmul t a st
      | CurveV c \<Rightarrow> (case curve_mul c a of Inl e \<Rightarrow> Inl e | Inr d \<Rightarrow> Inr (CurveV d, st))
      | _ \<Rightarrow> Inl TypeError)"

definition py_mul :: "pyval \<Rightarrow> pyval \<Rightarrow> store \<Rightarrow> error + (pyval \<times> store)" where
  "py_mul a b st =
     (case a of
        SiteRef s \<Rightarrow> Site_mul s b st
      | TelescopeRef t \<Rightarrow> Telescope_mul t b st
      | CurveV c \<Rightarrow> (case curve_mul c b of Inl e \<Rightarrow> Inl e | Inr d \<Rightarrow> Inr (CurveV d, st))
      | Number x \<Rightarrow> (case b of Number y \<Rightarrow> Inr (Number (x * y), st) | _ \<Rightarrow> reflected_mul a b st)
      | InstrumentRef i \<Rightarrow> reflected_mul a b st)"

text \<open>The curve an operand stands for, read from the store.\<close>

definition stored_curve :: "store \<Rightarrow> pyval \<Rightarrow> curve option" where
  "stored_curve st v =
     (case v of
        SiteRef s \<Rightarrow> (case sites st s of None \<Rightarrow> None | Some x \<Rightarrow> site_transmission x)
      | TelescopeRef t \<Rightarrow> map_option reflectivity (telescopes st t)
      | InstrumentRef i \<Rightarrow> map_option transmission (instruments st i)
      | CurveV c \<Rightarrow> Some c
      | Number x \<Rightarrow> None)"

section \<open>Example values\<close>

text \<open>Small concrete values at which the theorems below are instantiated.\<close>

definition no_meta :: metadata where
  "no_meta = \<lparr>header = Map.empty, expr = None\<rparr>"

definition ramp :: curve where
  "ramp = \<lparr>points = [1, 3], lookup_table = [0, 2], meta = no_meta\<rparr>"

definition uniform_curve :: "rat \<Rightarrow> metadata \<Rightarrow> curve" where
  "uniform_curve v m = \<lparr>points = wavelengths, lookup_table = uniform v, meta = m\<rparr>"

text \<open>
  An environment with one sky file that only the alternate dialect reads, one detector
  table in percent, one table for every filter, and no remote service.
\<close>

definition example_env :: env where
  "example_env =
     \<lparr>float_of_str = (\<lambda>s. None),
      expandvars = (\<lambda>s. s),
      path_exists = (\<lambda>p. False),
      pkg_file = (\<lambda>n. ''etc/data/'' @ n),
      read_spec = (\<lambda>f wc fc wu fu.
         if fc = ''trans'' then Inl (KeyError ''trans'')
         else Inr (Map.empty, [3 / 10, 3 / 2], [4 / 5, 9 / 10])),
      read_ascii_spec = (\<lambda>f wu fu.
         if f = ''etc/data/qe.dat'' then Inr (Map.empty, [300, 1500], [5, 7])
         else Inr (Map.empty, [800, 1000], [1 / 2, 3 / 4])),
      read_remote_spec = (\<lambda>f wu fu. Inl (LoaderError f)),
      qtable_read = (\<lambda>f. Inl (LoaderError f)),
      conf_value = (\<lambda>i. ''zs.dat''),
      conf_description = (\<lambda>i. ''filter''),
      default_keep_neg = False\<rparr>"

definition three_mirrors :: telescope_args where
  "three_mirrors =
     \<lparr>targ_name = None, targ_size = 1, targ_area = 1, targ_num_mirrors = 3,
      targ_reflectivity = Some (Num (9 / 10))\<rparr>"

definition no_mirrors :: telescope_args where
  "no_mirrors = three_mirrors\<lparr>targ_num_mirrors := 0\<rparr>"

definition sky_args :: site_args where
  "sky_args = \<lparr>arg_name = None, arg_altitude = None, arg_latitude = None,
               arg_longitude = None, arg_transmission = Some (Str ''sky.dat'')\<rparr>"

definition imager_args :: instrument_args where
  "imager_args =
     \<lparr>iarg_name = None, iarg_inst_type = ''imager'',
      iarg_num_ar_coatings = None, iarg_num_inst_lenses = None, iarg_num_inst_mirrors = None,
      iarg_inst_lens_trans = None, iarg_inst_mirror_refl = None,
      iarg_inst_ar_coating_refl = None,
      iarg_filterlist = Some [''zs''], iarg_ccd = Some (Str ''qe.dat'')\<rparr>"

definition site_obj :: site where
  "site_obj =
     \<lparr>site_name = ''Undefined'', altitude = None, latitude = None, longitude = None,
      site_transmission = Some (uniform_curve (9 / 10) no_meta)\<rparr>"

definition tel_obj :: telescope where
  "tel_obj =
     \<lparr>tel_name = ''Undefined'', tel_size = 1, area = 1, tel_num_mirrors = 1,
      reflectivity = uniform_curve (9 / 10) no_meta\<rparr>"

definition imager :: instrument where
  "imager =
     \<lparr>num_ar_coatings = 2, num_lenses = 1, num_mirrors = 0,
      lens_trans = 9 / 10, mirror_refl = 397 / 400, ar_coating = 99 / 100,
      inst_name = ''Undefined'', inst_type = ''IMAGER'',
      transmission = uniform_curve (88209 / 100000) no_meta,
      filterlist = [], filterset = [], ccd = Number (9 / 10)\<rparr>"

definition store0 :: store where
  "store0 = \<lparr>sites = [0 \<mapsto> site_obj], telescopes = [0 \<mapsto> tel_obj],
             instruments = [0 \<mapsto> imager, 1 \<mapsto> imager]\<rparr>"

definition site_scalar_args :: site_args where
  "site_scalar_args = \<lparr>arg_name = None, arg_altitude = None, arg_latitude = None,
               arg_longitude = None, arg_transmission = Some (Num (9 / 10))\<rparr>"

definition default_instrument_args :: instrument_args where
  "default_instrument_args =
     \<lparr>iarg_name = None, iarg_inst_type = ''IMAGER'',
      iarg_num_ar_coatings = None, iarg_num_inst_lenses = None, iarg_num_inst_mirrors = None,
      iarg_inst_lens_trans = None, iarg_inst_mirror_refl = None,
      iarg_inst_ar_coating_refl = None,
      iarg_filterlist = None, iarg_ccd = None\<rparr>"

definition ramp2 :: curve where
  "ramp2 = \<lparr>points = [2, 4], lookup_table = [1, 3], meta = no_meta\<rparr>"

section \<open>Properties\<close>

subsection \<open>Interpolation and grids\<close>

lemma sorted_hd_last:
  "sorted_wrt (<) (g :: rat list) \<Longrightarrow> y \<in> set g \<Longrightarrow> hd g \<le> y \<and> y \<le> last g"
  by (induction g) (auto simp: less_imp_le)

lemma interp_defined_iff:
  "length xs = length ys \<Longrightarrow> sorted_wrt (<) xs \<Longrightarrow>
   (interp xs ys q \<noteq> None) = (xs \<noteq> [] \<and> hd xs \<le> q \<and> q \<le> last xs)"
proof (induction xs ys q rule: interp.induct)
  case (1 x0 x1 xs y0 y1 ys q)
  have "x1 \<le> last (x1 # xs)"
    using sorted_hd_last[of "x1 # xs" x1] "1.prems" by simp
  with 1 show ?case by auto
next
  case (2 x0 y0 q)
  then show ?case by auto
qed simp_all

lemma interp_at_sample:
  "length xs = length ys \<Longrightarrow> sorted_wrt (<) xs \<Longrightarrow> i < length xs \<Longrightarrow> xs ! i = q \<Longrightarrow>
   interp xs ys q = Some (ys ! i)"
proof (induction xs ys q arbitrary: i rule: interp.induct)
  case (1 x0 x1 xs y0 y1 ys q)
  show ?case
  proof (cases i)
    case 0
    with 1 show ?thesis by auto
  next
    case (Suc j)
    with "1.prems" have q: "q = (x1 # xs) ! j" and j: "j < length (x1 # xs)" by auto
    then have mem: "q \<in> set (x1 # xs)" using nth_mem by blast
    from mem "1.prems" have x1q: "x1 \<le> q"
      using sorted_hd_last[of "x1 # xs" q] by simp
    from "1.prems" have "x0 < x1" by simp
    with x1q have n0: "\<not> q < x0" and n1: "\<not> q < x1" by linarith+
    have "interp (x0 # x1 # xs) (y0 # y1 # ys) q = interp (x1 # xs) (y1 # ys) q"
      by (simp only: interp.simps n0 n1 if_False)
    also have "\<dots> = Some ((y1 # ys) ! j)"
      using "1.IH"[OF n0 n1 _ _ j q[symmetric]] "1.prems" by simp
    finally show ?thesis using Suc by simp
  qed
next
  case (2 x0 y0 q)
  then show ?case by auto
qed simp_all

lemma set_union_grid: "set (union_grid xs ys) = set xs \<union> set ys"
  by (induction xs ys rule: union_grid.induct) auto

lemma sorted_union_grid:
  "sorted_wrt (<) xs \<Longrightarrow> sorted_wrt (<) ys \<Longrightarrow> sorted_wrt (<) (union_grid xs ys)"
  by (induction xs ys rule: union_grid.induct) (auto simp: set_union_grid)

lemma union_grid_Nil2: "union_grid xs [] = xs"
  by (cases xs) simp_all

lemma union_grid_comm: "union_grid xs ys = union_grid ys xs"
proof (induction xs ys rule: union_grid.induct)
  case (1 ys)
  then show ?case by (simp add: union_grid_Nil2)
next
  case (2 v va)
  then show ?case by simp
next
  case (3 x xs y ys)
  then show ?case by (cases "x < y"; cases "y < x") auto
qed


lemma evaluate_inside:
  "well_formed c \<Longrightarrow> in_domain c q \<Longrightarrow> \<exists>v. evaluate c q = Inr v"
  using interp_defined_iff[of "points c" "lookup_table c" q]
  by (auto simp: well_formed_def in_domain_def evaluate_def split: option.splits)

lemma evaluate_outside:
  "well_formed c \<Longrightarrow> \<not> in_domain c q \<Longrightarrow> evaluate c q = Inl DomainError"
  using interp_defined_iff[of "points c" "lookup_table c" q]
  by (auto simp: well_formed_def in_domain_def evaluate_def split: option.splits)

lemma evaluate_at_sample:
  "well_formed c \<Longrightarrow> i < length (points c) \<Longrightarrow> evaluate c (points c ! i) = Inr (lookup_table c ! i)"
  using interp_at_sample[of "points c" "lookup_table c" i "points c ! i"]
  by (simp add: well_formed_def evaluate_def)

lemma evaluate_all_inside:
  "well_formed c \<Longrightarrow> \<forall>q \<in> set qs. in_domain c q \<Longrightarrow>
   \<exists>vs. evaluate_all c qs = Inr vs \<and> length vs = length qs
        \<and> (\<forall>i < length qs. evaluate c (qs ! i) = Inr (vs ! i))"
proof (induction qs)
  case Nil
  then show ?case by simp
next
  case (Cons q qs)
  then obtain vs where vs: "evaluate_all c qs = Inr vs" "length vs = length qs"
      "\<forall>i < length qs. evaluate c (qs ! i) = Inr (vs ! i)" by auto
  from Cons.prems obtain v where v: "evaluate c q = Inr v"
    using evaluate_inside[of c q] by auto
  have "\<forall>i < length (q # qs). evaluate c ((q # qs) ! i) = Inr ((v # vs) ! i)"
    using v vs(3) by (auto simp: nth_Cons split: nat.splits)
  then show ?case using v vs by simp
qed

lemma shared_grid_sorted:
  "well_formed a \<Longrightarrow> well_formed b \<Longrightarrow> sorted_wrt (<) (shared_grid a b)"
  by (simp add: shared_grid_def well_formed_def sorted_union_grid sorted_wrt_filter)

lemma shared_grid_inside:
  "x \<in> set (shared_grid a b) \<Longrightarrow> in_domain a x \<and> in_domain b x"
  by (simp add: shared_grid_def)

lemma hd_in_domain: "well_formed c \<Longrightarrow> in_domain c x \<Longrightarrow> in_domain c (hd (points c))"
  using sorted_hd_last[of "points c" "hd (points c)"]
  by (auto simp: in_domain_def well_formed_def)

lemma last_in_domain: "well_formed c \<Longrightarrow> in_domain c x \<Longrightarrow> in_domain c (last (points c))"
  using sorted_hd_last[of "points c" "last (points c)"]
  by (auto simp: in_domain_def well_formed_def)

lemma shared_grid_domain:
  assumes a: "well_formed a" and b: "well_formed b"
  shows "(shared_grid a b \<noteq> [] \<and> hd (shared_grid a b) \<le> x \<and> x \<le> last (shared_grid a b))
         = (in_domain a x \<and> in_domain b x)"
proof
  let ?g = "shared_grid a b"
  assume h: "?g \<noteq> [] \<and> hd ?g \<le> x \<and> x \<le> last ?g"
  then have "hd ?g \<in> set ?g" "last ?g \<in> set ?g" by simp_all
  then have "in_domain a (hd ?g)" "in_domain b (hd ?g)" "in_domain a (last ?g)" "in_domain b (last ?g)"
    using shared_grid_inside by blast+
  with h show "in_domain a x \<and> in_domain b x"
    by (auto simp: in_domain_def)
next
  let ?g = "shared_grid a b"
  assume h: "in_domain a x \<and> in_domain b x"
  define lo where "lo = max (hd (points a)) (hd (points b))"
  define hi where "hi = min (last (points a)) (last (points b))"
  from h have nea: "points a \<noteq> []" and neb: "points b \<noteq> []" by (auto simp: in_domain_def)
  have lox: "lo \<le> x" and xhi: "x \<le> hi" using h by (auto simp: lo_def hi_def in_domain_def)
  have ha: "hd (points a) \<le> last (points a)" and hb: "hd (points b) \<le> last (points b)"
    using h by (auto simp: in_domain_def)
  have lo_mem: "lo \<in> set (union_grid (points a) (points b))"
    using nea neb by (auto simp: lo_def set_union_grid max_def)
  have hi_mem: "hi \<in> set (union_grid (points a) (points b))"
    using nea neb by (auto simp: hi_def set_union_grid min_def)
  have "in_domain a lo \<and> in_domain b lo"
    using nea neb lox xhi ha hb h by (auto simp: in_domain_def lo_def hi_def)
  with lo_mem have lo_g: "lo \<in> set ?g" by (simp add: shared_grid_def)
  have "in_domain a hi \<and> in_domain b hi"
    using nea neb lox xhi ha hb h by (auto simp: in_domain_def lo_def hi_def)
  with hi_mem have hi_g: "hi \<in> set ?g" by (simp add: shared_grid_def)
  have "hd ?g \<le> lo" "hi \<le> last ?g"
    using sorted_hd_last[OF shared_grid_sorted[OF a b]] lo_g hi_g by blast+
  with lox xhi lo_g show "?g \<noteq> [] \<and> hd ?g \<le> x \<and> x \<le> last ?g" by auto
qed


lemma multiply_result:
  assumes a: "well_formed a" and b: "well_formed b"
  shows "\<exists>va vb. evaluate_all a (shared_grid a b) = Inr va \<and> evaluate_all b (shared_grid a b) = Inr vb
           \<and> length va = length (shared_grid a b) \<and> length vb = length (shared_grid a b)
           \<and> (\<forall>i < length (shared_grid a b).
                 evaluate a (shared_grid a b ! i) = Inr (va ! i)
               \<and> evaluate b (shared_grid a b ! i) = Inr (vb ! i))
           \<and> multiply a b =
               Inr \<lparr>points = shared_grid a b, lookup_table = map2 (*) va vb, meta = meta a\<rparr>"
proof -
  let ?g = "shared_grid a b"
  have ina: "\<forall>q \<in> set ?g. in_domain a q" and inb: "\<forall>q \<in> set ?g. in_domain b q"
    using shared_grid_inside by blast+
  obtain va where va: "evaluate_all a ?g = Inr va" "length va = length ?g"
      "\<forall>i < length ?g. evaluate a (?g ! i) = Inr (va ! i)"
    using evaluate_all_inside[OF a ina] by blast
  obtain vb where vb: "evaluate_all b ?g = Inr vb" "length vb = length ?g"
      "\<forall>i < length ?g. evaluate b (?g ! i) = Inr (vb ! i)"
    using evaluate_all_inside[OF b inb] by blast
  have "multiply a b = Inr \<lparr>points = ?g, lookup_table = map2 (*) va vb, meta = meta a\<rparr>"
    by (simp add: multiply_def va(1) vb(1))
  with va vb show ?thesis by blast
qed

lemma multiply_well_formed:
  assumes a: "well_formed a" and b: "well_formed b"
  shows "\<exists>c. multiply a b = Inr c \<and> well_formed c \<and> points c = shared_grid a b \<and> meta c = meta a"
proof -
  from multiply_result[OF a b] obtain va vb where
    l: "length va = length (shared_grid a b)" "length vb = length (shared_grid a b)" and
    m: "multiply a b = Inr \<lparr>points = shared_grid a b, lookup_table = map2 (*) va vb, meta = meta a\<rparr>"
    by blast
  show ?thesis
    using l m shared_grid_sorted[OF a b] by (simp add: well_formed_def)
qed

lemma shared_grid_comm: "shared_grid a b = shared_grid b a"
  by (simp add: shared_grid_def union_grid_comm conj_commute)

lemma map2_mult_comm: "map2 (*) (xs :: rat list) ys = map2 (*) ys xs"
  by (induction xs arbitrary: ys) (auto simp: zip_Cons1 split: list.splits)

lemma multiply_comm:
  assumes a: "well_formed a" and b: "well_formed b"
  shows "\<exists>c d. multiply a b = Inr c \<and> multiply b a = Inr d
           \<and> points c = points d \<and> lookup_table c = lookup_table d"
proof -
  from multiply_result[OF a b] obtain va vb where
    e: "evaluate_all a (shared_grid a b) = Inr va" "evaluate_all b (shared_grid a b) = Inr vb" and
    m: "multiply a b = Inr \<lparr>points = shared_grid a b, lookup_table = map2 (*) va vb, meta = meta a\<rparr>"
    by blast
  have "multiply b a = Inr \<lparr>points = shared_grid a b, lookup_table = map2 (*) vb va, meta = meta b\<rparr>"
    using e by (simp add: multiply_def shared_grid_comm[of b a])
  with m show ?thesis by (simp add: map2_mult_comm)
qed

subsection \<open>The product of two curves\<close>

text \<open>
  The product of two well-formed curves in the sampled model of section 4.1: it exists,
  its grid is the union of the operands' sample wavelengths restricted to the
  intersection of their native domains, its native domain is that intersection, at every
  wavelength of its grid it evaluates to the product of the operands' values there, and
  outside the intersection it has no value.
\<close>

lemma sampled_product_domain_and_grid:
  assumes a: "well_formed a" and b: "well_formed b"
  shows "\<exists>c. multiply a b = Inr c \<and> well_formed c
           \<and> points c = filter (\<lambda>x. in_domain a x \<and> in_domain b x) (union_grid (points a) (points b))
           \<and> (\<forall>x. in_domain c x = (in_domain a x \<and> in_domain b x))
           \<and> (\<forall>x \<in> set (points c). \<exists>u v.
                 evaluate a x = Inr u \<and> evaluate b x = Inr v \<and> evaluate c x = Inr (u * v))
           \<and> (\<forall>x. \<not> (in_domain a x \<and> in_domain b x) \<longrightarrow> evaluate c x = Inl DomainError)"
proof -
  let ?g = "shared_grid a b"
  from multiply_result[OF a b] obtain va vb where
    l: "length va = length ?g" "length vb = length ?g" and
    ev: "\<forall>i < length ?g. evaluate a (?g ! i) = Inr (va ! i) \<and> evaluate b (?g ! i) = Inr (vb ! i)" and
    m: "multiply a b = Inr \<lparr>points = ?g, lookup_table = map2 (*) va vb, meta = meta a\<rparr>"
    by blast
  define c where "c = \<lparr>points = ?g, lookup_table = map2 (*) va vb, meta = meta a\<rparr>"
  have wf: "well_formed c"
    using l shared_grid_sorted[OF a b] by (simp add: well_formed_def c_def)
  have dom: "\<forall>x. in_domain c x = (in_domain a x \<and> in_domain b x)"
    using shared_grid_domain[OF a b] by (simp add: in_domain_def c_def)
  have samples: "\<forall>x \<in> set (points c). \<exists>u v.
      evaluate a x = Inr u \<and> evaluate b x = Inr v \<and> evaluate c x = Inr (u * v)"
  proof
    fix x assume "x \<in> set (points c)"
    then obtain i where i: "i < length ?g" "?g ! i = x"
      by (auto simp: c_def in_set_conv_nth)
    have "evaluate c (points c ! i) = Inr (lookup_table c ! i)"
      using evaluate_at_sample[OF wf, of i] i by (simp add: c_def)
    then have "evaluate c x = Inr (va ! i * vb ! i)"
      using i l by (simp add: c_def)
    with ev i show "\<exists>u v. evaluate a x = Inr u \<and> evaluate b x = Inr v \<and> evaluate c x = Inr (u * v)"
      by auto
  qed
  have out: "\<forall>x. \<not> (in_domain a x \<and> in_domain b x) \<longrightarrow> evaluate c x = Inl DomainError"
    using evaluate_outside[OF wf] dom by blast
  have "points c = filter (\<lambda>x. in_domain a x \<and> in_domain b x) (union_grid (points a) (points b))"
    by (simp add: c_def shared_grid_def)
  with m wf dom samples out show ?thesis unfolding c_def[symmetric] by blast
qed


subsection \<open>The telescope\<close>

lemma sorted_wavelengths: "sorted_wrt (<) wavelengths"
  unfolding wavelengths_def by (simp only: sorted_wrt_map of_int_less_iff sorted_wrt_upto)

lemma length_wavelengths: "length wavelengths = 1201"
  unfolding wavelengths_def by (simp del: upto_rec_numeral)

lemma union_grid_same: "union_grid xs xs = xs"
  by (induction xs) auto

lemma shared_grid_same_points:
  assumes "well_formed a" "points b = points a"
  shows "shared_grid a b = points a"
proof -
  have "\<forall>x \<in> set (points a). in_domain a x \<and> in_domain b x"
    using sorted_hd_last[of "points a"] assms by (auto simp: in_domain_def well_formed_def)
  then show ?thesis
    using assms by (simp add: shared_grid_def union_grid_same)
qed

lemma evaluate_all_own_grid:
  assumes wf: "well_formed c"
  shows "evaluate_all c (points c) = Inr (lookup_table c)"
proof -
  have "\<forall>q \<in> set (points c). in_domain c q"
    using sorted_hd_last[of "points c"] wf by (auto simp: in_domain_def well_formed_def)
  from evaluate_all_inside[OF wf this] obtain vs where
    vs: "evaluate_all c (points c) = Inr vs" "length vs = length (points c)"
        "\<forall>i < length (points c). evaluate c (points c ! i) = Inr (vs ! i)" by blast
  have "vs = lookup_table c"
  proof (rule nth_equalityI)
    show "length vs = length (lookup_table c)" using vs(2) wf by (simp add: well_formed_def)
  next
    fix i assume "i < length vs"
    then have i: "i < length (points c)" using vs(2) by simp
    with vs(3) evaluate_at_sample[OF wf i] show "vs ! i = lookup_table c ! i" by simp
  qed
  with vs(1) show ?thesis by simp
qed

lemma multiply_same_points:
  assumes a: "well_formed a" and b: "well_formed b" and p: "points b = points a"
  shows "multiply a b =
           Inr \<lparr>points = points a, lookup_table = map2 (*) (lookup_table a) (lookup_table b),
                meta = meta a\<rparr>"
  using evaluate_all_own_grid[OF a] evaluate_all_own_grid[OF b] shared_grid_same_points[OF a p] p
  by (simp add: multiply_def)

lemma map2_replicate: "map2 f (replicate n x) (replicate n y) = replicate n (f x y)"
  by (induction n) auto

lemma uniform_curve_wf: "well_formed (uniform_curve v m)"
  by (simp add: uniform_curve_def well_formed_def uniform_def sorted_wavelengths)

lemma multiply_uniform:
  "multiply (uniform_curve u m) (uniform_curve v m') = Inr (uniform_curve (u * v) m)"
  using multiply_same_points[OF uniform_curve_wf[of u m] uniform_curve_wf[of v m']]
  by (simp add: uniform_curve_def uniform_def map2_replicate)

lemma mul_times_uniform:
  "mul_times k (uniform_curve u m) (uniform_curve r m') = Inr (uniform_curve (u * r ^ k) m)"
  by (induction k arbitrary: u) (simp_all add: multiply_uniform mult.assoc)

lemma construct_uniform:
  "construct wavelengths (uniform v) True m = Inr (uniform_curve v m)"
  by (simp add: construct_def uniform_def uniform_curve_def sorted_wavelengths)

lemma funpow_max_idem: "(max (v::rat) ^^ k) v = v"
  by (induction k) auto

lemma max_of_replicate: "n \<noteq> 0 \<Longrightarrow> max_of (replicate n v) = Inr v"
  by (cases n) (simp_all add: max_of_def funpow_max_idem)

lemma wavelengths_nonempty: "length wavelengths \<noteq> 0"
  using length_wavelengths by linarith

lemma max_of_uniform: "max_of (uniform v) = Inr v"
  unfolding uniform_def by (rule max_of_replicate[OF wavelengths_nonempty])

lemma peak_uniform: "peak (uniform_curve v m) None = Inr v"
  using evaluate_all_own_grid[OF uniform_curve_wf[of v m]]
  by (simp add: peak_def uniform_curve_def max_of_uniform)

lemma evaluate_uniform:
  assumes "x \<in> set wavelengths"
  shows "evaluate (uniform_curve v m) x = Inr v"
proof -
  from assms obtain i where i: "i < length wavelengths" "wavelengths ! i = x"
    by (auto simp: in_set_conv_nth)
  from evaluate_at_sample[OF uniform_curve_wf[of v m], of i] i
  show ?thesis by (simp add: uniform_curve_def uniform_def)
qed

lemma Telescope_init_scalar:
  assumes "py_float ev (case targ_reflectivity a of None \<Rightarrow> Num (91 / 100) | Some r \<Rightarrow> r) = Inr r"
  shows "Telescope_init ev a =
           Inr \<lparr>tel_name = (case targ_name a of None \<Rightarrow> ''Undefined'' | Some n \<Rightarrow> n),
                tel_size = targ_size a, area = targ_area a,
                tel_num_mirrors = targ_num_mirrors a,
                reflectivity =
                  uniform_curve (r * r ^ nat (targ_num_mirrors a - 1)) no_meta\<rparr>"
proof -
  have tab: "mirror_table ev a = Inr (Map.empty, wavelengths, uniform r)"
    using assms by (simp add: mirror_table_def Let_def)
  show ?thesis
    using tab construct_uniform[of r no_meta]
      mul_times_uniform[of "nat (targ_num_mirrors a - 1)" r no_meta r no_meta]
    by (simp add: Telescope_init_def no_meta_def)
qed

lemma mirror_power:
  "r * r ^ nat (n - 1) = (if 1 \<le> n then r ^ nat n else (r :: rat))"
proof (cases "1 \<le> n")
  case True
  then have "nat n = Suc (nat (n - 1))" by simp
  then show ?thesis using True by (simp del: nat_diff_distrib)
next
  case False
  then show ?thesis by simp
qed

text \<open>
  What the constructor computes from a scalar per-mirror reflectivity \<open>r\<close>: the
  per-mirror curve multiplied by itself \<open>nat (num_mirrors - 1)\<close> more times, a uniform
  curve whose value, and peak, is \<open>r ^ num_mirrors\<close> for a mirror count of at least 1
  and \<open>r\<close> for a smaller count, where the loop body never runs.
\<close>

lemma telescope_scalar_reflectivity:
  assumes "py_float ev (case targ_reflectivity a of None \<Rightarrow> Num (91 / 100) | Some r \<Rightarrow> r) = Inr r"
  shows "\<exists>t. Telescope_init ev a = Inr t
           \<and> mul_times (nat (targ_num_mirrors a - 1)) (uniform_curve r no_meta) (uniform_curve r no_meta)
               = Inr (reflectivity t)
           \<and> points (reflectivity t) = wavelengths
           \<and> lookup_table (reflectivity t)
               = uniform (if 1 \<le> targ_num_mirrors a then r ^ nat (targ_num_mirrors a) else r)
           \<and> (\<forall>x \<in> set wavelengths. evaluate (reflectivity t) x
               = Inr (if 1 \<le> targ_num_mirrors a then r ^ nat (targ_num_mirrors a) else r))
           \<and> tpeak t None = Inr (if 1 \<le> targ_num_mirrors a then r ^ nat (targ_num_mirrors a) else r)"
proof -
  let ?n = "targ_num_mirrors a"
  let ?v = "if 1 \<le> ?n then r ^ nat ?n else r"
  have loop: "mul_times (nat (?n - 1)) (uniform_curve r no_meta) (uniform_curve r no_meta)
                = Inr (uniform_curve ?v no_meta)"
    using mul_times_uniform[of "nat (?n - 1)" r no_meta r no_meta] mirror_power[of r ?n] by simp
  define t where "t = \<lparr>tel_name = (case targ_name a of None \<Rightarrow> ''Undefined'' | Some n \<Rightarrow> n),
      tel_size = targ_size a, area = targ_area a, tel_num_mirrors = ?n,
      reflectivity = uniform_curve ?v no_meta\<rparr>"
  have init: "Telescope_init ev a = Inr t"
    using Telescope_init_scalar[OF assms] mirror_power[of r ?n] by (simp add: t_def)
  have r: "reflectivity t = uniform_curve ?v no_meta" by (simp add: t_def)
  show ?thesis
    using init loop r evaluate_uniform[of _ ?v no_meta] peak_uniform[of ?v no_meta]
    by (simp add: tpeak_def uniform_curve_def)
qed

text \<open>
  C5, the code at a failing input: a telescope with the scalar per-mirror reflectivity
  0.9 and a mirror count of 0. The loop does not run, so the stored reflectivity is the
  single-mirror curve: its value at every wavelength of the grid, and its peak, is 0.9,
  where the product over no mirrors is \<open>0.9 ^ 0 = 1\<close>, the factor that
  \<^verbatim>\<open>mirror_refl**num_mirrors\<close> gives an instrument without mirrors. With three
  mirrors the constructor gives \<open>0.9 ^ 3 = 0.729\<close>, as the claim says.
\<close>

theorem telescope_zero_mirrors:
  "(\<exists>t. Telescope_init example_env no_mirrors = Inr t
        \<and> targ_num_mirrors no_mirrors = 0
        \<and> points (reflectivity t) = wavelengths
        \<and> lookup_table (reflectivity t) = uniform (9 / 10)
        \<and> tpeak t None = Inr (9 / 10))
   \<and> (9 / 10 :: rat) \<noteq> (9 / 10) ^ 0
   \<and> py_pow (9 / 10) 0 = Inr 1
   \<and> (\<exists>t. Telescope_init example_env three_mirrors = Inr t
          \<and> targ_num_mirrors three_mirrors = 3
          \<and> lookup_table (reflectivity t) = uniform ((9 / 10) ^ 3)
          \<and> tpeak t None = Inr (729 / 1000))"
proof -
  have h0: "py_float example_env
             (case targ_reflectivity no_mirrors of None \<Rightarrow> Num (91 / 100) | Some r \<Rightarrow> r)
           = Inr (9 / 10)"
    by (simp add: no_mirrors_def three_mirrors_def py_float_def)
  have 1: "\<exists>t. Telescope_init example_env no_mirrors = Inr t
        \<and> targ_num_mirrors no_mirrors = 0
        \<and> points (reflectivity t) = wavelengths
        \<and> lookup_table (reflectivity t) = uniform (9 / 10)
        \<and> tpeak t None = Inr (9 / 10)"
    using Telescope_init_scalar[OF h0] peak_uniform[of "9 / 10" no_meta]
    by (simp add: no_mirrors_def three_mirrors_def tpeak_def uniform_curve_def)
  have 2: "(9 / 10 :: rat) \<noteq> (9 / 10) ^ 0" by simp
  have 3: "py_pow (9 / 10) 0 = Inr 1" by (simp add: py_pow_def)
  have h3: "py_float example_env
             (case targ_reflectivity three_mirrors of None \<Rightarrow> Num (91 / 100) | Some r \<Rightarrow> r)
           = Inr (9 / 10)"
    by (simp add: three_mirrors_def py_float_def)
  have n: "nat (targ_num_mirrors three_mirrors - 1) = 2" by (simp add: three_mirrors_def)
  have p: "(9 / 10 :: rat) * (9 / 10) ^ 2 = (9 / 10) ^ 3" "(9 / 10 :: rat) ^ 3 = 729 / 1000"
    by (simp_all add: power3_eq_cube power2_eq_square)
  have 4: "\<exists>t. Telescope_init example_env three_mirrors = Inr t
          \<and> targ_num_mirrors three_mirrors = 3
          \<and> lookup_table (reflectivity t) = uniform ((9 / 10) ^ 3)
          \<and> tpeak t None = Inr (729 / 1000)"
    using Telescope_init_scalar[OF h3] peak_uniform[of "729 / 1000" no_meta]
    unfolding n p
    by (simp add: three_mirrors_def tpeak_def uniform_curve_def)
  from 1 2 3 4 show ?thesis by blast
qed

subsection \<open>Filter resolution\<close>

lemma normalise_plus: "normalise_token [c, CHR ''p''] = [c]"
  by (simp add: normalise_token_def)

lemma normalise_other:
  "length t \<noteq> 2 \<or> t ! 1 \<noteq> CHR ''p'' \<Longrightarrow> normalise_token t = t"
  by (auto simp: normalise_token_def)

lemma normalise_idem: "normalise_token (normalise_token t) = normalise_token t"
  by (simp add: normalise_token_def)

lemma set_bandpass_normalised:
  "set_bandpass_from_filter ev (normalise_token t) = set_bandpass_from_filter ev t"
  by (simp add: set_bandpass_from_filter_def normalise_idem cong: sum.case_cong)

text \<open>
  C8: a two-character token whose second character is \<open>p\<close> is reduced to its first
  character before the lookup, so resolving it gives what resolving the first character
  alone gives (in particular for \<open>zp\<close> and \<open>z\<close>); any other token is looked up
  unchanged.
\<close>

theorem plus_alias_resolution:
  "normalise_token [c, CHR ''p''] = [c]
   \<and> set_bandpass_from_filter ev [c, CHR ''p''] = set_bandpass_from_filter ev [c]
   \<and> set_bandpass_from_filter ev ''zp'' = set_bandpass_from_filter ev ''z''
   \<and> (length t \<noteq> 2 \<or> t ! 1 \<noteq> CHR ''p'' \<longrightarrow>
        normalise_token t = t
        \<and> set_bandpass_from_filter ev t =
            (case lookup_resource t of
               Inl e \<Rightarrow> Inl e
             | Inr filename \<Rightarrow>
                 (case load_filter ev filename of
                    Inl e \<Rightarrow> Inl e
                  | Inr (h, w, f) \<Rightarrow>
                      construct w f (default_keep_neg ev)
                        \<lparr>header = h(''filename'' \<mapsto> conf_value ev filename,
                                     ''descrip'' \<mapsto> conf_description ev filename),
                         expr = Some t\<rparr>)))"
proof -
  have a: "set_bandpass_from_filter ev [c, CHR ''p''] = set_bandpass_from_filter ev [c]"
    using set_bandpass_normalised[of ev "[c, CHR ''p'']"] by (simp add: normalise_plus)
  have b: "set_bandpass_from_filter ev ''zp'' = set_bandpass_from_filter ev ''z''"
    using set_bandpass_normalised[of ev "''zp''"] by (simp add: normalise_token_def)
  have c: "length t \<noteq> 2 \<or> t ! 1 \<noteq> CHR ''p'' \<longrightarrow>
        normalise_token t = t
        \<and> set_bandpass_from_filter ev t =
            (case lookup_resource t of
               Inl e \<Rightarrow> Inl e
             | Inr filename \<Rightarrow>
                 (case load_filter ev filename of
                    Inl e \<Rightarrow> Inl e
                  | Inr (h, w, f) \<Rightarrow>
                      construct w f (default_keep_neg ev)
                        \<lparr>header = h(''filename'' \<mapsto> conf_value ev filename,
                                     ''descrip'' \<mapsto> conf_description ev filename),
                         expr = Some t\<rparr>))"
  proof
    assume "length t \<noteq> 2 \<or> t ! 1 \<noteq> CHR ''p''"
    then have n: "normalise_token t = t" by (rule normalise_other)
    show "normalise_token t = t
        \<and> set_bandpass_from_filter ev t =
            (case lookup_resource t of
               Inl e \<Rightarrow> Inl e
             | Inr filename \<Rightarrow>
                 (case load_filter ev filename of
                    Inl e \<Rightarrow> Inl e
                  | Inr (h, w, f) \<Rightarrow>
                      construct w f (default_keep_neg ev)
                        \<lparr>header = h(''filename'' \<mapsto> conf_value ev filename,
                                     ''descrip'' \<mapsto> conf_description ev filename),
                         expr = Some t\<rparr>))"
      unfolding set_bandpass_from_filter_def n by simp
  qed
  from a b c normalise_plus[of c] show ?thesis by blast
qed

lemma example_load_filter:
  "load_filter example_env f = Inr (Map.empty, [800, 1000], [1 / 2, 3 / 4])"
proof -
  have "\<not> contains ''LCO_'' (upper ''zs.dat'')" by code_simp
  moreover have "\<not> contains ''http://svo'' (lower ''zs.dat'')" by code_simp
  ultimately show ?thesis
    by (simp add: load_filter_def example_env_def read_ascii_nm_def in_nm_def to_nm_def)
qed

lemma example_bandpass_zs:
  "set_bandpass_from_filter example_env ''zs'' =
     Inr \<lparr>points = [800, 1000], lookup_table = [1 / 2, 3 / 4],
          meta = \<lparr>header = [''filename'' \<mapsto> ''zs.dat'', ''descrip'' \<mapsto> ''filter''],
                  expr = Some ''zs''\<rparr>\<rparr>"
  by (simp add: set_bandpass_from_filter_def normalise_token_def lookup_resource_def mapping_def
      example_load_filter construct_def)
    (simp add: example_env_def)

theorem plus_alias_resolution_witness:
  "''zs'' ! 1 \<noteq> CHR ''p''
   \<and> normalise_token ''zs'' = ''zs''
   \<and> normalise_token ''zp'' = ''z''
   \<and> set_bandpass_from_filter example_env ''zp'' = set_bandpass_from_filter example_env ''z''
   \<and> (\<exists>c. set_bandpass_from_filter example_env ''zs'' = Inr c \<and> expr (meta c) = Some ''zs'')"
proof -
  have pre: "length ''zs'' \<noteq> 2 \<or> ''zs'' ! 1 \<noteq> CHR ''p''" by simp
  note th = plus_alias_resolution[of "CHR ''z''" example_env "''zs''"]
  from th have 1: "set_bandpass_from_filter example_env ''zp'' = set_bandpass_from_filter example_env ''z''"
    by blast
  from th pre have 2: "normalise_token ''zs'' = ''zs''" by blast
  from th have 3: "normalise_token ''zp'' = ''z''" by simp
  from example_bandpass_zs
  have 4: "\<exists>c. set_bandpass_from_filter example_env ''zs'' = Inr c \<and> expr (meta c) = Some ''zs''"
    by simp
  have 5: "''zs'' ! 1 \<noteq> CHR ''p''" by simp
  show ?thesis using 5 1 2 3 4 by blast
qed

text \<open>
  C10: the tokens \<open>z\<close> and \<open>zs\<close> name the same resource; resolving them either fails
  with the same error or gives two curves with the same grid, the same values and the
  same header, which therefore agree at every wavelength. Only the recorded token
  differs.
\<close>

theorem z_and_zs_same_resource:
  "lookup_resource ''z'' = Inr lco_zs_file \<and> lookup_resource ''zs'' = Inr lco_zs_file
   \<and> (set_bandpass_from_filter ev ''z'' = Inl e) = (set_bandpass_from_filter ev ''zs'' = Inl e)
   \<and> (set_bandpass_from_filter ev ''z'' = Inr cz \<longrightarrow>
        (\<exists>czs. set_bandpass_from_filter ev ''zs'' = Inr czs
           \<and> points czs = points cz \<and> lookup_table czs = lookup_table cz
           \<and> header (meta czs) = header (meta cz)
           \<and> expr (meta cz) = Some ''z'' \<and> expr (meta czs) = Some ''zs''
           \<and> (\<forall>x. evaluate czs x = evaluate cz x)))"
proof -
  have lz: "lookup_resource ''z'' = Inr lco_zs_file" and lzs: "lookup_resource ''zs'' = Inr lco_zs_file"
    by (simp_all add: lookup_resource_def mapping_def)
  have nz: "normalise_token ''z'' = ''z''" and nzs: "normalise_token ''zs'' = ''zs''"
    by (simp_all add: normalise_token_def)
  show ?thesis
  proof (cases "load_filter ev lco_zs_file")
    case (Inl err)
    then show ?thesis
      using lz lzs nz nzs by (simp add: set_bandpass_from_filter_def)
  next
    case (Inr t)
    obtain h w f where t: "t = (h, w, f)" by (cases t) auto
    show ?thesis
      using Inr t lz lzs nz nzs
      by (auto simp: set_bandpass_from_filter_def construct_def evaluate_def split: if_splits)
  qed
qed

theorem z_and_zs_same_resource_witness:
  "\<exists>cz czs. set_bandpass_from_filter example_env ''z'' = Inr cz
      \<and> set_bandpass_from_filter example_env ''zs'' = Inr czs
      \<and> points czs = points cz \<and> lookup_table czs = lookup_table cz
      \<and> (\<forall>x. evaluate czs x = evaluate cz x)"
proof -
  have "\<exists>cz. set_bandpass_from_filter example_env ''z'' = Inr cz"
    by (simp add: set_bandpass_from_filter_def normalise_token_def lookup_resource_def mapping_def
        example_load_filter construct_def)
  then obtain cz where cz: "set_bandpass_from_filter example_env ''z'' = Inr cz" by blast
  with z_and_zs_same_resource[of example_env _ cz] show ?thesis by blast
qed

subsection \<open>The site and its sky file\<close>

lemma read_sky_file_fallback:
  assumes "do_read_spec ev (primary_read f) = Inl (KeyError k)"
  shows "read_sky_file ev f =
           ([primary_read f, fallback_read f],
            (case do_read_spec ev (fallback_read f) of
               Inr t \<Rightarrow> Inr (in_nm MICRON t)
             | Inl e \<Rightarrow> Inl e))"
  using assms by (simp add: read_sky_file_def)

lemma Site_init_file:
  assumes "arg_transmission a = Some (Str s)" "float_of_str ev s = None"
  shows "Site_init ev a =
           (case read_sky_file ev (expandvars ev s) of
              (calls, Inl e) \<Rightarrow> (calls, Inl e)
            | (calls, Inr t) \<Rightarrow> (calls, with_transmission (site_base a) t))"
  using assms by (simp add: Site_init_def py_float_def)

text \<open>
  C9: when the transmission argument names a file and the read with the primary column
  name \<open>trans\<close> raises \<open>KeyError\<close>, the constructor makes exactly one more read of the
  same file, with the column name \<open>flux\<close> and the wavelength unit micrometres instead of
  nanometres; an error of that second read is the error the caller sees, and its table
  becomes the transmission curve.
\<close>

theorem site_dialect_fallback:
  assumes "arg_transmission a = Some (Str s)" "float_of_str ev s = None"
    and "do_read_spec ev (primary_read (expandvars ev s)) = Inl (KeyError k)"
  shows "fst (Site_init ev a) = [primary_read (expandvars ev s), fallback_read (expandvars ev s)]
    \<and> rc_flux_col (primary_read (expandvars ev s)) = ''trans''
    \<and> rc_wave_unit (primary_read (expandvars ev s)) = NM
    \<and> rc_flux_col (fallback_read (expandvars ev s)) = ''flux''
    \<and> rc_wave_unit (fallback_read (expandvars ev s)) = MICRON
    \<and> rc_file (fallback_read (expandvars ev s)) = rc_file (primary_read (expandvars ev s))
    \<and> snd (Site_init ev a) =
         (case do_read_spec ev (fallback_read (expandvars ev s)) of
            Inl e \<Rightarrow> Inl e
          | Inr t \<Rightarrow> with_transmission (site_base a) (in_nm MICRON t))"
proof -
  have "Site_init ev a =
      ([primary_read (expandvars ev s), fallback_read (expandvars ev s)],
       (case do_read_spec ev (fallback_read (expandvars ev s)) of
            Inl e \<Rightarrow> Inl e
          | Inr t \<Rightarrow> with_transmission (site_base a) (in_nm MICRON t)))"
    unfolding Site_init_file[OF assms(1,2)] read_sky_file_fallback[OF assms(3)]
    by (simp split: sum.splits)
  then show ?thesis by (simp add: primary_read_def fallback_read_def)
qed

theorem site_dialect_fallback_witness:
  "arg_transmission sky_args = Some (Str ''sky.dat'')
   \<and> float_of_str example_env ''sky.dat'' = None
   \<and> do_read_spec example_env (primary_read (expandvars example_env ''sky.dat'')) = Inl (KeyError ''trans'')
   \<and> fst (Site_init example_env sky_args) = [primary_read ''sky.dat'', fallback_read ''sky.dat'']
   \<and> (\<exists>st. snd (Site_init example_env sky_args) = Inr st
          \<and> map_option points (site_transmission st) = Some [300, 1500])"
proof -
  have 1: "arg_transmission sky_args = Some (Str ''sky.dat'')" by (simp add: sky_args_def)
  have 2: "float_of_str example_env ''sky.dat'' = None" by (simp add: example_env_def)
  have 3: "do_read_spec example_env (primary_read (expandvars example_env ''sky.dat'')) = Inl (KeyError ''trans'')"
    by (simp add: example_env_def do_read_spec_def primary_read_def)
  have e: "expandvars example_env ''sky.dat'' = ''sky.dat''" by (simp add: example_env_def)
  have 4: "do_read_spec example_env (fallback_read ''sky.dat'')
            = Inr (Map.empty, [3 / 10, 3 / 2], [4 / 5, 9 / 10])"
    by (simp add: example_env_def do_read_spec_def fallback_read_def)
  from site_dialect_fallback[OF 1 2 3]
  have f: "fst (Site_init example_env sky_args) = [primary_read ''sky.dat'', fallback_read ''sky.dat'']"
    and s: "snd (Site_init example_env sky_args) =
         (case do_read_spec example_env (fallback_read ''sky.dat'') of
            Inl e \<Rightarrow> Inl e
          | Inr t \<Rightarrow> with_transmission (site_base sky_args) (in_nm MICRON t))"
    unfolding e by blast+
  have "\<exists>st. snd (Site_init example_env sky_args) = Inr st
          \<and> map_option points (site_transmission st) = Some [300, 1500]"
    unfolding s 4 by (simp add: with_transmission_def in_nm_def to_nm_def construct_def)
  with 1 2 3 f show ?thesis by blast
qed

lemma read_sky_file_other_error:
  "do_read_spec ev (primary_read f) = Inl e \<Longrightarrow> \<forall>k. e \<noteq> KeyError k \<Longrightarrow>
   read_sky_file ev f = ([primary_read f], Inl e)"
  by (cases e) (simp_all add: read_sky_file_def)

subsection \<open>The detector table\<close>

lemma sum_list_scaled: "sum_list (map (\<lambda>x. x / c) xs) = sum_list xs / (c :: rat)"
  by (induction xs) (simp_all add: add_divide_distrib)

lemma mean_scaled: "mean (map (\<lambda>x. x / 100) xs) = map_option (\<lambda>m. m / 100) (mean xs)"
  by (simp add: mean_def sum_list_scaled)

text \<open>
  C7 (amended): for a detector table read from a file, if the mean of the samples
  exceeds 1 then every sample is divided by 100, the mean becomes the hundredth of what
  it was (so it lies in [0, 1] exactly when the original mean is at most 100) and the
  header gets the note that the division took place; if the mean is at most 1 (or the
  table is empty) samples and header are unchanged. The detector curve is built from the
  result with negative samples clamped to 0, under the file's name.
\<close>

theorem detector_rescaling:
  "(mean_exceeds_one f \<longrightarrow>
      rescale_percent (h, w, f)
        = (h(''notes'' \<mapsto> ''Divided by 100.0 to convert from percentage''), w, map (\<lambda>x. x / 100) f)
      \<and> (\<exists>m. mean f = Some m \<and> 1 < m
             \<and> mean (map (\<lambda>x. x / 100) f) = Some (m / 100)
             \<and> ((0 \<le> m / 100 \<and> m / 100 \<le> 1) = (m \<le> 100))))
   \<and> (\<not> mean_exceeds_one f \<longrightarrow> rescale_percent (h, w, f) = (h, w, f))
   \<and> (read_ascii_nm ev (resolve_path ev ccd_qe) THROUGHPUT = Inr (h, w, f) \<longrightarrow>
        load_ccd ev (Some (Str ccd_qe)) =
          (case rescale_percent (h, w, f) of
             (h', w', f') \<Rightarrow>
               (case construct w' f' False \<lparr>header = h'(''filename'' \<mapsto> ccd_qe), expr = None\<rparr> of
                  Inl e \<Rightarrow> Inl e
                | Inr c \<Rightarrow> Inr (CurveV c))))
   \<and> (read_ascii_nm ev (resolve_path ev ccd_qe) THROUGHPUT = Inr (h, w, f)
        \<and> load_ccd ev (Some (Str ccd_qe)) = Inr (CurveV c) \<longrightarrow>
        points c = w \<and> header (meta c) ''filename'' = Some ccd_qe
        \<and> (mean_exceeds_one f \<longrightarrow>
              header (meta c) ''notes'' = Some ''Divided by 100.0 to convert from percentage''
              \<and> lookup_table c = map (max 0) (map (\<lambda>x. x / 100) f))
        \<and> (\<not> mean_exceeds_one f \<longrightarrow>
              header (meta c) ''notes'' = h ''notes'' \<and> lookup_table c = map (max 0) f))"
proof -
  have a: "mean_exceeds_one f \<longrightarrow>
      (\<exists>m. mean f = Some m \<and> 1 < m
             \<and> mean (map (\<lambda>x. x / 100) f) = Some (m / 100)
             \<and> ((0 \<le> m / 100 \<and> m / 100 \<le> 1) = (m \<le> 100)))"
    by (auto simp: mean_exceeds_one_def mean_scaled split: option.splits)
  have b: "mean_exceeds_one f \<longrightarrow> rescale_percent (h, w, f)
        = (h(''notes'' \<mapsto> ''Divided by 100.0 to convert from percentage''), w, map (\<lambda>x. x / 100) f)"
    by (simp add: rescale_percent_def)
  have c: "\<not> mean_exceeds_one f \<longrightarrow> rescale_percent (h, w, f) = (h, w, f)"
    by (simp add: rescale_percent_def)
  have d: "read_ascii_nm ev (resolve_path ev ccd_qe) THROUGHPUT = Inr (h, w, f) \<longrightarrow>
        load_ccd ev (Some (Str ccd_qe)) =
          (case rescale_percent (h, w, f) of
             (h', w', f') \<Rightarrow>
               (case construct w' f' False \<lparr>header = h'(''filename'' \<mapsto> ccd_qe), expr = None\<rparr> of
                  Inl e \<Rightarrow> Inl e
                | Inr c \<Rightarrow> Inr (CurveV c)))"
    by (simp add: load_ccd_def)
  have e: "read_ascii_nm ev (resolve_path ev ccd_qe) THROUGHPUT = Inr (h, w, f)
        \<and> load_ccd ev (Some (Str ccd_qe)) = Inr (CurveV c) \<longrightarrow>
        points c = w \<and> header (meta c) ''filename'' = Some ccd_qe
        \<and> (mean_exceeds_one f \<longrightarrow>
              header (meta c) ''notes'' = Some ''Divided by 100.0 to convert from percentage''
              \<and> lookup_table c = map (max 0) (map (\<lambda>x. x / 100) f))
        \<and> (\<not> mean_exceeds_one f \<longrightarrow>
              header (meta c) ''notes'' = h ''notes'' \<and> lookup_table c = map (max 0) f)"
    by (auto simp: load_ccd_def rescale_percent_def construct_def split: if_splits)
  from a b c d e show ?thesis by blast
qed

lemma example_qe_read:
  "read_ascii_nm example_env (resolve_path example_env ''qe.dat'') THROUGHPUT
     = Inr (Map.empty, [300, 1500], [5, 7])"
  by (simp add: read_ascii_nm_def resolve_path_def example_env_def in_nm_def to_nm_def)

theorem detector_rescaling_witness:
  "mean_exceeds_one [5, 7] \<and> mean [5, 7] = Some 6
   \<and> mean (map (\<lambda>x. x / 100) [5, 7]) = Some (6 / 100)
   \<and> \<not> mean_exceeds_one [1 / 2, 3 / 4]
   \<and> rescale_percent (Map.empty, [300, 1500], [1 / 2, 3 / 4]) = (Map.empty, [300, 1500], [1 / 2, 3 / 4])
   \<and> read_ascii_nm example_env (resolve_path example_env ''qe.dat'') THROUGHPUT
        = Inr (Map.empty, [300, 1500], [5, 7])
   \<and> load_ccd example_env (Some (Str ''qe.dat'')) =
        Inr (CurveV \<lparr>points = [300, 1500], lookup_table = [5 / 100, 7 / 100],
               meta = \<lparr>header = [''notes'' \<mapsto> ''Divided by 100.0 to convert from percentage'',
                                  ''filename'' \<mapsto> ''qe.dat''],
                       expr = None\<rparr>\<rparr>)"
proof -
  have 1: "mean_exceeds_one [5, 7]" by (simp add: mean_exceeds_one_def mean_def)
  have 2: "\<not> mean_exceeds_one [1 / 2, 3 / 4]" by (simp add: mean_exceeds_one_def mean_def)
  have 3: "mean [5, 7] = Some 6" by (simp add: mean_def)
  note th1 = detector_rescaling[of "[5, 7]" Map.empty "[300, 1500]" example_env "''qe.dat''" ramp]
  note th2 = detector_rescaling[of "[1 / 2, 3 / 4]" Map.empty "[300, 1500]" example_env "''qe.dat''" ramp]
  from th1 1 have r: "rescale_percent (Map.empty, [300, 1500], [5, 7])
        = ([''notes'' \<mapsto> ''Divided by 100.0 to convert from percentage''], [300, 1500],
           map (\<lambda>x. x / 100) [5, 7])"
    by blast
  from th1 1 3 have m: "mean (map (\<lambda>x. x / 100) [5, 7]) = Some (6 / 100)" by auto
  from th2 2 have u: "rescale_percent (Map.empty, [300, 1500], [1 / 2, 3 / 4])
      = (Map.empty, [300, 1500], [1 / 2, 3 / 4])" by blast
  from th1 example_qe_read have "load_ccd example_env (Some (Str ''qe.dat'')) =
          (case rescale_percent (Map.empty, [300, 1500], [5, 7]) of
             (h', w', f') \<Rightarrow>
               (case construct w' f' False \<lparr>header = h'(''filename'' \<mapsto> ''qe.dat''), expr = None\<rparr> of
                  Inl e \<Rightarrow> Inl e
                | Inr c \<Rightarrow> Inr (CurveV c)))" by blast
  then have l: "load_ccd example_env (Some (Str ''qe.dat'')) =
        Inr (CurveV \<lparr>points = [300, 1500], lookup_table = [5 / 100, 7 / 100],
               meta = \<lparr>header = [''notes'' \<mapsto> ''Divided by 100.0 to convert from percentage'',
                                  ''filename'' \<mapsto> ''qe.dat''],
                       expr = None\<rparr>\<rparr>)"
    unfolding r by (simp add: construct_def)
  from 1 2 3 m u l example_qe_read show ?thesis by blast
qed

text \<open>
  C7 as stated fails for a table whose mean exceeds 100: the samples 250 and 250 are
  divided by 100, and the resulting mean 5/2 is not in [0, 1].
\<close>

theorem detector_rescaling_counterexample:
  "mean_exceeds_one [250, 250]
   \<and> rescale_percent (Map.empty, [300, 1500], [250, 250])
       = ([''notes'' \<mapsto> ''Divided by 100.0 to convert from percentage''], [300, 1500], [5 / 2, 5 / 2])
   \<and> mean [5 / 2, 5 / 2] = Some (5 / 2)
   \<and> \<not> (5 / 2 :: rat) \<le> 1"
  by (simp add: mean_exceeds_one_def mean_def rescale_percent_def)

subsection \<open>The total throughput of an instrument\<close>

lemma construct_well_formed: "construct w v k m = Inr c \<Longrightarrow> well_formed c"
  by (auto simp: construct_def well_formed_def split: if_splits)

lemma set_bandpass_well_formed:
  "set_bandpass_from_filter ev t = Inr c \<Longrightarrow> well_formed c"
  by (auto simp: set_bandpass_from_filter_def split: sum.splits prod.splits
      dest: construct_well_formed)

lemma fill_filterset_keys:
  "fill_filterset ev l fs = Inr fs' \<Longrightarrow> fst ` set fs' = fst ` set fs \<union> set l"
proof (induction l arbitrary: fs)
  case Nil
  then show ?case by simp
next
  case (Cons f l)
  show ?case
  proof (cases "map_of fs f")
    case None
    with Cons.prems obtain c where
      c: "set_bandpass_from_filter ev f = Inr c" and
      r: "fill_filterset ev l (fs @ [(f, c)]) = Inr fs'"
      by (auto split: sum.splits)
    from Cons.IH[OF r] show ?thesis by auto
  next
    case (Some d)
    then have "(f, d) \<in> set fs" by (rule map_of_SomeD)
    then have mem: "f \<in> fst ` set fs" by (rule rev_image_eqI) simp
    from Some Cons.prems have r: "fill_filterset ev l fs = Inr fs'" by simp
    from Cons.IH[OF r] have "fst ` set fs' = fst ` set fs \<union> set l" .
    with mem show ?thesis by auto
  qed
qed

lemma fill_filterset_well_formed:
  "fill_filterset ev l fs = Inr fs' \<Longrightarrow> \<forall>c \<in> snd ` set fs. well_formed c \<Longrightarrow>
   \<forall>c \<in> snd ` set fs'. well_formed c"
proof (induction l arbitrary: fs)
  case Nil
  then show ?case by simp
next
  case (Cons f l)
  show ?case
  proof (cases "map_of fs f")
    case None
    with Cons.prems obtain c where
      c: "set_bandpass_from_filter ev f = Inr c" and
      r: "fill_filterset ev l (fs @ [(f, c)]) = Inr fs'"
      by (auto split: sum.splits)
    have "\<forall>d \<in> snd ` set (fs @ [(f, c)]). well_formed d"
      using Cons.prems(2) set_bandpass_well_formed[OF c] by auto
    from Cons.IH[OF r this] show ?thesis .
  next
    case (Some d)
    with Cons.prems have "fill_filterset ev l fs = Inr fs'" by simp
    from Cons.IH[OF this Cons.prems(2)] show ?thesis .
  qed
qed

lemma load_ccd_result:
  "load_ccd ev a = Inr q \<Longrightarrow> (\<exists>x. q = Number x) \<or> (\<exists>c. q = CurveV c \<and> well_formed c)"
  by (auto simp: load_ccd_def split: option.splits arg.splits sum.splits prod.splits
      dest: construct_well_formed)

lemma Instrument_init_invariant:
  assumes "Instrument_init ev a = Inr inst"
  shows "well_formed (transmission inst)"
    and "fst ` set (filterset inst) = set (filterlist inst)"
    and "\<forall>c \<in> snd ` set (filterset inst). well_formed c"
    and "(\<exists>x. ccd inst = Number x) \<or> (\<exists>c. ccd inst = CurveV c \<and> well_formed c)"
proof -
  from assms obtain t tc fs q where
    tc: "construct wavelengths (uniform t) True \<lparr>header = Map.empty, expr = None\<rparr> = Inr tc" and
    fs: "fill_filterset ev (case iarg_filterlist a of None \<Rightarrow> [] | Some l \<Rightarrow> l) [] = Inr fs" and
    q: "load_ccd ev (iarg_ccd a) = Inr q" and
    i: "transmission inst = tc" "filterset inst = fs" "ccd inst = q"
       "filterlist inst = (case iarg_filterlist a of None \<Rightarrow> [] | Some l \<Rightarrow> l)"
    by (auto simp: Instrument_init_def split: sum.splits)
  show "well_formed (transmission inst)" using construct_well_formed[OF tc] i by simp
  show "fst ` set (filterset inst) = set (filterlist inst)"
    using fill_filterset_keys[OF fs] i by simp
  show "\<forall>c \<in> snd ` set (filterset inst). well_formed c"
    using fill_filterset_well_formed[OF fs] i by simp
  show "(\<exists>x. ccd inst = Number x) \<or> (\<exists>c. ccd inst = CurveV c \<and> well_formed c)"
    using load_ccd_result[OF q] i by simp
qed

lemma multiply_scalar_well_formed: "well_formed c \<Longrightarrow> well_formed (multiply_scalar c x)"
  by (simp add: well_formed_def multiply_scalar_def)

lemma curve_mul_total:
  assumes "well_formed c" "(\<exists>x. v = Number x) \<or> (\<exists>d. v = CurveV d \<and> well_formed d)"
  shows "\<exists>p. curve_mul c v = Inr p \<and> well_formed p"
proof -
  from assms(2) show ?thesis
  proof
    assume "\<exists>x. v = Number x"
    then show ?thesis
      using multiply_scalar_well_formed[OF assms(1)] by (auto simp: curve_mul_def)
  next
    assume "\<exists>d. v = CurveV d \<and> well_formed d"
    then obtain d where d: "v = CurveV d" "well_formed d" by blast
    from multiply_well_formed[OF assms(1) d(2)] obtain p where
      "multiply c d = Inr p" "well_formed p" by blast
    then show ?thesis using d(1) by (simp add: curve_mul_def)
  qed
qed

text \<open>
  C4: for an instrument that its constructor has built, \<open>throughput\<close> raises the
  module's error for a filter token exactly when the token is not a key of the filter
  set (whose keys are the tokens of the filter list); for a registered token it returns
  the product of the filter curve, the internal transmission and the detector.
\<close>

theorem throughput_registered_filter:
  assumes "Instrument_init ev a = Inr inst"
  shows "((\<exists>msg. throughput inst t = Inl (ETCError msg)) = (t \<notin> fst ` set (filterset inst)))
    \<and> fst ` set (filterset inst) = set (filterlist inst)
    \<and> (t \<notin> fst ` set (filterset inst) \<longrightarrow> throughput inst t = Inl (invalid_filter t))
    \<and> (t \<in> fst ` set (filterset inst) \<longrightarrow>
         (\<exists>fc p c. map_of (filterset inst) t = Some fc
            \<and> curve_mul fc (CurveV (transmission inst)) = Inr p
            \<and> curve_mul p (ccd inst) = Inr c
            \<and> throughput inst t = Inr c))"
proof -
  note inv = Instrument_init_invariant[OF assms]
  have out: "t \<notin> fst ` set (filterset inst) \<longrightarrow> throughput inst t = Inl (invalid_filter t)"
    by (simp add: throughput_def map_of_eq_None_iff)
  have inside: "t \<in> fst ` set (filterset inst) \<longrightarrow>
         (\<exists>fc p c. map_of (filterset inst) t = Some fc
            \<and> curve_mul fc (CurveV (transmission inst)) = Inr p
            \<and> curve_mul p (ccd inst) = Inr c
            \<and> throughput inst t = Inr c)"
  proof
    assume t: "t \<in> fst ` set (filterset inst)"
    then obtain fc where fc: "map_of (filterset inst) t = Some fc"
      by (metis map_of_eq_None_iff not_Some_eq)
    then have "(t, fc) \<in> set (filterset inst)" by (rule map_of_SomeD)
    then have "fc \<in> snd ` set (filterset inst)" by (rule rev_image_eqI) simp
    with inv(3) have wfc: "well_formed fc" by blast
    from curve_mul_total[OF wfc, of "CurveV (transmission inst)"] inv(1)
    obtain p where p: "curve_mul fc (CurveV (transmission inst)) = Inr p" "well_formed p"
      by auto
    from curve_mul_total[OF p(2) inv(4)]
    obtain c where c: "curve_mul p (ccd inst) = Inr c" by blast
    have "throughput inst t = Inr c"
      using t fc p(1) c inv(2) by (simp add: throughput_def)
    with fc p(1) c show "\<exists>fc p c. map_of (filterset inst) t = Some fc
            \<and> curve_mul fc (CurveV (transmission inst)) = Inr p
            \<and> curve_mul p (ccd inst) = Inr c
            \<and> throughput inst t = Inr c" by blast
  qed
  have iff: "(\<exists>msg. throughput inst t = Inl (ETCError msg)) = (t \<notin> fst ` set (filterset inst))"
    using out inside by (auto simp: invalid_filter_def)
  from iff inv(2) out inside show ?thesis by blast
qed

lemma example_load_ccd: "\<exists>c. load_ccd example_env (Some (Str ''qe.dat'')) = Inr (CurveV c)"
proof -
  have "read_ascii_nm example_env (resolve_path example_env ''qe.dat'') THROUGHPUT
     = Inr (Map.empty, [300, 1500], [5, 7])"
    by (simp add: read_ascii_nm_def resolve_path_def example_env_def in_nm_def to_nm_def)
  then show ?thesis
    by (simp add: load_ccd_def rescale_percent_def mean_exceeds_one_def mean_def construct_def)
qed

lemma example_instrument: "\<exists>inst. Instrument_init example_env imager_args = Inr inst"
proof -
  have t: "compute_transmission (instrument_optics imager_args) = Inr (88209 / 100000)"
    by (simp add: compute_transmission_def instrument_optics_def imager_args_def py_pow_def
        power_int_def power2_eq_square)
  have f: "\<exists>fs. fill_filterset example_env [''zs''] [] = Inr fs"
    by (simp add: example_bandpass_zs)
  from example_load_ccd obtain c where
    c: "load_ccd example_env (iarg_ccd imager_args) = Inr (CurveV c)"
    by (auto simp: imager_args_def)
  from f obtain fs where
    fs: "fill_filterset example_env (case iarg_filterlist imager_args of None \<Rightarrow> [] | Some l \<Rightarrow> l) []
          = Inr fs"
    by (auto simp: imager_args_def)
  show ?thesis
    unfolding Instrument_init_def t
    using construct_uniform[of "88209 / 100000" "\<lparr>header = Map.empty, expr = None\<rparr>"] fs c
    by simp
qed

theorem throughput_registered_filter_witness:
  "\<exists>inst. Instrument_init example_env imager_args = Inr inst
     \<and> set (filterlist inst) = {''zs''}
     \<and> throughput inst ''g'' = Inl (ETCError ''Filter name g is invalid.'')
     \<and> (\<exists>c. throughput inst ''zs'' = Inr c)"
proof -
  from example_instrument obtain inst where
    i: "Instrument_init example_env imager_args = Inr inst" by blast
  then have l: "filterlist inst = [''zs'']"
    by (auto simp: Instrument_init_def imager_args_def split: sum.splits)
  note g = throughput_registered_filter[OF i, of "''g''"]
  note z = throughput_registered_filter[OF i, of "''zs''"]
  from g l have "throughput inst ''g'' = Inl (invalid_filter ''g'')" by simp
  then have 1: "throughput inst ''g'' = Inl (ETCError ''Filter name g is invalid.'')"
    by (simp add: invalid_filter_def)
  from z l have 2: "\<exists>c. throughput inst ''zs'' = Inr c" by auto
  from i l 1 2 show ?thesis by auto
qed

subsection \<open>The operators and the stored curves\<close>

lemma uniform_nonneg: "0 \<le> v \<Longrightarrow> map (max 0) (uniform v) = uniform v"
  by (simp add: uniform_def max_def)

lemma site_obj_constructed: "Site_init ev site_scalar_args = ([], Inr site_obj)"
proof -
  have c: "construct wavelengths (uniform (9 / 10)) False \<lparr>header = Map.empty, expr = None\<rparr>
            = Inr (uniform_curve (9 / 10) no_meta)"
    using uniform_nonneg[of "9 / 10"]
    by (simp add: construct_def sorted_wavelengths uniform_curve_def no_meta_def)
      (simp add: uniform_def)
  show ?thesis
    by (simp add: Site_init_def site_scalar_args_def py_float_def with_transmission_def c
        site_base_def site_obj_def)
qed

lemma tel_obj_constructed:
  "Telescope_init ev (three_mirrors\<lparr>targ_num_mirrors := 1\<rparr>) = Inr tel_obj"
proof -
  have h: "py_float ev
      (case targ_reflectivity (three_mirrors\<lparr>targ_num_mirrors := 1\<rparr>) of
         None \<Rightarrow> Num (91 / 100) | Some r \<Rightarrow> r) = Inr (9 / 10)"
    by (simp add: three_mirrors_def py_float_def)
  show ?thesis
    using Telescope_init_scalar[OF h] by (simp add: three_mirrors_def tel_obj_def)
qed

lemma imager_constructed: "Instrument_init ev default_instrument_args = Inr imager"
proof -
  have u: "upper ''IMAGER'' = ''IMAGER''" by code_simp
  have t: "compute_transmission (instrument_optics default_instrument_args) = Inr (88209 / 100000)"
    by (simp add: compute_transmission_def instrument_optics_def default_instrument_args_def
        py_pow_def power_int_def power2_eq_square)
  have c: "construct wavelengths (uniform (88209 / 100000)) True \<lparr>header = Map.empty, expr = None\<rparr>
            = Inr (uniform_curve (88209 / 100000) no_meta)"
    using construct_uniform[of "88209 / 100000" no_meta] by (simp add: no_meta_def)
  have l: "load_ccd ev (iarg_ccd default_instrument_args) = Inr (Number (9 / 10))"
    by (simp add: default_instrument_args_def load_ccd_def)
  have f: "iarg_filterlist default_instrument_args = None"
    "iarg_name default_instrument_args = None"
    "iarg_inst_type default_instrument_args = ''IMAGER''"
    by (simp_all add: default_instrument_args_def)
  have o: "instrument_optics default_instrument_args =
      \<lparr>num_ar_coatings = 2, num_lenses = 1, num_mirrors = 0,
       lens_trans = 9 / 10, mirror_refl = 397 / 400, ar_coating = 99 / 100\<rparr>"
    by (simp add: instrument_optics_def default_instrument_args_def)
  show ?thesis
    unfolding Instrument_init_def t
    by (simp add: c l f u) (simp add: o imager_def)
qed

lemma multiply_scalar_uniform:
  "multiply_scalar (uniform_curve v m) s = uniform_curve (v * s) m"
  by (simp add: multiply_scalar_def uniform_curve_def uniform_def)

lemma uniform_inject: "(uniform u = uniform v) = (u = v)"
  using wavelengths_nonempty by (simp add: uniform_def)

text \<open>
  C2, the code at a failing input: a site with the uniform transmission 0.9 multiplied
  by the scalar 0.5. The operator returns the site itself, not a curve, and the site's
  stored transmission has become the product; the same holds for a telescope and for
  the product of the site with the telescope, which leaves the telescope alone.
\<close>

theorem operators_overwrite_stored_curve:
  "stored_curve store0 (SiteRef 0) = Some (uniform_curve (9 / 10) no_meta)
   \<and> stored_curve store0 (TelescopeRef 0) = Some (uniform_curve (9 / 10) no_meta)
   \<and> (\<exists>st. py_mul (SiteRef 0) (Number (1 / 2)) store0 = Inr (SiteRef 0, st)
          \<and> stored_curve st (SiteRef 0) = Some (uniform_curve (9 / 20) no_meta))
   \<and> (\<exists>st. py_mul (TelescopeRef 0) (Number (1 / 2)) store0 = Inr (TelescopeRef 0, st)
          \<and> stored_curve st (TelescopeRef 0) = Some (uniform_curve (9 / 20) no_meta))
   \<and> (\<exists>st. py_mul (SiteRef 0) (TelescopeRef 0) store0 = Inr (SiteRef 0, st)
          \<and> stored_curve st (SiteRef 0) = Some (uniform_curve (81 / 100) no_meta)
          \<and> stored_curve st (TelescopeRef 0) = Some (uniform_curve (9 / 10) no_meta))
   \<and> (\<exists>st. Telescope_truediv 0 (Number 2) store0 = Inr (TelescopeRef 0, st)
          \<and> stored_curve st (TelescopeRef 0) = Some (uniform_curve (9 / 20) no_meta))
   \<and> uniform_curve (9 / 20) no_meta \<noteq> uniform_curve (9 / 10) no_meta
   \<and> uniform_curve (81 / 100) no_meta \<noteq> uniform_curve (9 / 10) no_meta"
proof -
  have 1: "stored_curve store0 (SiteRef 0) = Some (uniform_curve (9 / 10) no_meta)"
    by (simp add: stored_curve_def store0_def site_obj_def)
  have 2: "stored_curve store0 (TelescopeRef 0) = Some (uniform_curve (9 / 10) no_meta)"
    by (simp add: stored_curve_def store0_def tel_obj_def)
  have 3: "\<exists>st. py_mul (SiteRef 0) (Number (1 / 2)) store0 = Inr (SiteRef 0, st)
          \<and> stored_curve st (SiteRef 0) = Some (uniform_curve (9 / 20) no_meta)"
    by (simp add: py_mul_def Site_mul_def unwrap_def get_transmission_def set_transmission_def
        curve_mul_def multiply_scalar_uniform stored_curve_def store0_def site_obj_def)
  have 4: "\<exists>st. py_mul (TelescopeRef 0) (Number (1 / 2)) store0 = Inr (TelescopeRef 0, st)
          \<and> stored_curve st (TelescopeRef 0) = Some (uniform_curve (9 / 20) no_meta)"
    by (simp add: py_mul_def Telescope_mul_def get_reflectivity_def set_reflectivity_def
        curve_mul_def multiply_scalar_uniform stored_curve_def store0_def tel_obj_def)
  have 5: "\<exists>st. py_mul (SiteRef 0) (TelescopeRef 0) store0 = Inr (SiteRef 0, st)
          \<and> stored_curve st (SiteRef 0) = Some (uniform_curve (81 / 100) no_meta)
          \<and> stored_curve st (TelescopeRef 0) = Some (uniform_curve (9 / 10) no_meta)"
    by (simp add: py_mul_def Site_mul_def unwrap_def get_transmission_def set_transmission_def
        curve_mul_def multiply_uniform stored_curve_def store0_def site_obj_def tel_obj_def)
  have 6: "\<exists>st. Telescope_truediv 0 (Number 2) store0 = Inr (TelescopeRef 0, st)
          \<and> stored_curve st (TelescopeRef 0) = Some (uniform_curve (9 / 20) no_meta)"
    by (simp add: Telescope_truediv_def get_reflectivity_def set_reflectivity_def
        curve_truediv_def divide_scalar_def stored_curve_def store0_def tel_obj_def
        uniform_curve_def uniform_def)
  have 7: "uniform_curve (9 / 20) no_meta \<noteq> uniform_curve (9 / 10) no_meta"
    "uniform_curve (81 / 100) no_meta \<noteq> uniform_curve (9 / 10) no_meta"
    by (simp_all add: uniform_curve_def uniform_inject)
  from 1 2 3 4 5 6 7 show ?thesis by blast
qed

subsection \<open>Commutativity of the product\<close>

lemma stored_site_curve:
  "stored_curve st (SiteRef s) = Some c \<Longrightarrow> get_transmission s st = Inr c"
  by (auto simp: stored_curve_def get_transmission_def split: option.splits)

lemma stored_telescope_curve:
  "stored_curve st (TelescopeRef t) = Some c \<Longrightarrow> get_reflectivity t st = Inr c"
  by (auto simp: stored_curve_def get_reflectivity_def split: option.splits)

lemma stored_after_set_transmission:
  "stored_curve st (SiteRef s) = Some c \<Longrightarrow>
   stored_curve (set_transmission s d st) (SiteRef s) = Some d"
  by (auto simp: stored_curve_def set_transmission_def split: option.splits)

lemma stored_after_set_reflectivity:
  "stored_curve st (TelescopeRef t) = Some c \<Longrightarrow>
   stored_curve (set_reflectivity t d st) (TelescopeRef t) = Some d"
  by (auto simp: stored_curve_def set_reflectivity_def split: option.splits)

lemma unwrap_instrument:
  "stored_curve st (InstrumentRef i) = Some c \<Longrightarrow> unwrap st (InstrumentRef i) = Inr (CurveV c)"
  by (auto simp: stored_curve_def unwrap_def split: option.splits)

lemma site_times_scalar:
  assumes "stored_curve st (SiteRef s) = Some c0"
  shows "\<exists>st'. py_mul (SiteRef s) (Number x) st = Inr (SiteRef s, st')
           \<and> stored_curve st' (SiteRef s) = Some (multiply_scalar c0 x)"
  using stored_site_curve[OF assms] stored_after_set_transmission[OF assms]
  by (simp add: py_mul_def Site_mul_def unwrap_def curve_mul_def)

lemma telescope_times_scalar:
  assumes "stored_curve st (TelescopeRef t) = Some r0"
  shows "\<exists>st'. py_mul (TelescopeRef t) (Number x) st = Inr (TelescopeRef t, st')
           \<and> stored_curve st' (TelescopeRef t) = Some (multiply_scalar r0 x)"
  using stored_telescope_curve[OF assms] stored_after_set_reflectivity[OF assms]
  by (simp add: py_mul_def Telescope_mul_def curve_mul_def)

lemma site_times_instrument:
  assumes s: "stored_curve st (SiteRef s) = Some c0"
    and i: "stored_curve st (InstrumentRef i) = Some t0"
    and wf: "well_formed c0" "well_formed t0"
  shows "\<exists>st' p. multiply c0 t0 = Inr p
           \<and> py_mul (SiteRef s) (InstrumentRef i) st = Inr (SiteRef s, st')
           \<and> stored_curve st' (SiteRef s) = Some p"
proof -
  from multiply_well_formed[OF wf] obtain p where p: "multiply c0 t0 = Inr p" by blast
  have "py_mul (SiteRef s) (InstrumentRef i) st = Inr (SiteRef s, set_transmission s p st)"
    using stored_site_curve[OF s] unwrap_instrument[OF i] p
    by (simp add: py_mul_def Site_mul_def curve_mul_def)
  with p stored_after_set_transmission[OF s, of p] show ?thesis by blast
qed

lemma curves_commute:
  assumes "well_formed a" "well_formed b"
  shows "\<exists>c d. py_mul (CurveV a) (CurveV b) st = Inr (CurveV c, st)
           \<and> py_mul (CurveV b) (CurveV a) st = Inr (CurveV d, st)
           \<and> points c = points d \<and> lookup_table c = lookup_table d"
proof -
  from multiply_comm[OF assms] obtain c d where
    "multiply a b = Inr c" "multiply b a = Inr d"
    "points c = points d" "lookup_table c = lookup_table d" by blast
  then show ?thesis by (simp add: py_mul_def curve_mul_def)
qed

text \<open>
  C3 (amended): multiplication commutes where both orders reach the same method. The
  products of two well-formed curves in either order both succeed with the same grid and
  the same values. From the same store, a scalar times a curve, a site or a telescope,
  and an instrument times a site, give what the opposite order gives, because the
  reflected operator delegates to \<open>__mul__\<close>; these products succeed when the component
  holds a curve. The product of two instruments is a \<open>TypeError\<close>.
\<close>

theorem multiplication_commutes_where_reflected:
  "(well_formed a \<and> well_formed b \<longrightarrow>
      (\<exists>c d. py_mul (CurveV a) (CurveV b) st = Inr (CurveV c, st)
           \<and> py_mul (CurveV b) (CurveV a) st = Inr (CurveV d, st)
           \<and> points c = points d \<and> lookup_table c = lookup_table d))
   \<and> py_mul (Number x) (CurveV a) st = py_mul (CurveV a) (Number x) st
   \<and> py_mul (Number x) (SiteRef s) st = py_mul (SiteRef s) (Number x) st
   \<and> py_mul (InstrumentRef i) (SiteRef s) st = py_mul (SiteRef s) (InstrumentRef i) st
   \<and> py_mul (Number x) (TelescopeRef t) st = py_mul (TelescopeRef t) (Number x) st
   \<and> (stored_curve st (SiteRef s) = Some c0 \<longrightarrow>
        (\<exists>st'. py_mul (SiteRef s) (Number x) st = Inr (SiteRef s, st')
           \<and> stored_curve st' (SiteRef s) = Some (multiply_scalar c0 x)))
   \<and> (stored_curve st (TelescopeRef t) = Some r0 \<longrightarrow>
        (\<exists>st'. py_mul (TelescopeRef t) (Number x) st = Inr (TelescopeRef t, st')
           \<and> stored_curve st' (TelescopeRef t) = Some (multiply_scalar r0 x)))
   \<and> (stored_curve st (SiteRef s) = Some c0 \<and> stored_curve st (InstrumentRef i) = Some t0
        \<and> well_formed c0 \<and> well_formed t0 \<longrightarrow>
        (\<exists>st' p. multiply c0 t0 = Inr p
           \<and> py_mul (SiteRef s) (InstrumentRef i) st = Inr (SiteRef s, st')
           \<and> stored_curve st' (SiteRef s) = Some p))
   \<and> py_mul (InstrumentRef i) (InstrumentRef j) st = Inl TypeError"
proof -
  have 1: "well_formed a \<and> well_formed b \<longrightarrow>
      (\<exists>c d. py_mul (CurveV a) (CurveV b) st = Inr (CurveV c, st)
           \<and> py_mul (CurveV b) (CurveV a) st = Inr (CurveV d, st)
           \<and> points c = points d \<and> lookup_table c = lookup_table d)"
    using curves_commute by blast
  have 2: "py_mul (Number x) (CurveV a) st = py_mul (CurveV a) (Number x) st"
    by (simp add: py_mul_def reflected_mul_def)
  have 3: "py_mul (Number x) (SiteRef s) st = py_mul (SiteRef s) (Number x) st"
    by (simp add: py_mul_def reflected_mul_def Site_rmul_def)
  have 4: "py_mul (InstrumentRef i) (SiteRef s) st = py_mul (SiteRef s) (InstrumentRef i) st"
    by (simp add: py_mul_def reflected_mul_def Site_rmul_def)
  have 5: "py_mul (Number x) (TelescopeRef t) st = py_mul (TelescopeRef t) (Number x) st"
    by (simp add: py_mul_def reflected_mul_def Telescope_rmul_def)
  have 6: "stored_curve st (SiteRef s) = Some c0 \<longrightarrow>
        (\<exists>st'. py_mul (SiteRef s) (Number x) st = Inr (SiteRef s, st')
           \<and> stored_curve st' (SiteRef s) = Some (multiply_scalar c0 x))"
    using site_times_scalar by blast
  have 7: "stored_curve st (TelescopeRef t) = Some r0 \<longrightarrow>
        (\<exists>st'. py_mul (TelescopeRef t) (Number x) st = Inr (TelescopeRef t, st')
           \<and> stored_curve st' (TelescopeRef t) = Some (multiply_scalar r0 x))"
    using telescope_times_scalar by blast
  have 8: "stored_curve st (SiteRef s) = Some c0 \<and> stored_curve st (InstrumentRef i) = Some t0
        \<and> well_formed c0 \<and> well_formed t0 \<longrightarrow>
        (\<exists>st' p. multiply c0 t0 = Inr p
           \<and> py_mul (SiteRef s) (InstrumentRef i) st = Inr (SiteRef s, st')
           \<and> stored_curve st' (SiteRef s) = Some p)"
    using site_times_instrument by blast
  have 9: "py_mul (InstrumentRef i) (InstrumentRef j) st = Inl TypeError"
    by (simp add: py_mul_def reflected_mul_def)
  from 1 2 3 4 5 6 7 8 9 show ?thesis by blast
qed

theorem multiplication_commutes_where_reflected_witness:
  "well_formed ramp \<and> well_formed ramp2
   \<and> (\<exists>c d. py_mul (CurveV ramp) (CurveV ramp2) store0 = Inr (CurveV c, store0)
          \<and> py_mul (CurveV ramp2) (CurveV ramp) store0 = Inr (CurveV d, store0)
          \<and> points c = points d \<and> lookup_table c = lookup_table d)
   \<and> stored_curve store0 (SiteRef 0) = Some (uniform_curve (9 / 10) no_meta)
   \<and> stored_curve store0 (TelescopeRef 0) = Some (uniform_curve (9 / 10) no_meta)
   \<and> stored_curve store0 (InstrumentRef 0) = Some (uniform_curve (88209 / 100000) no_meta)
   \<and> (\<exists>st'. py_mul (Number (1 / 2)) (SiteRef 0) store0 = Inr (SiteRef 0, st')
          \<and> stored_curve st' (SiteRef 0) = Some (uniform_curve (9 / 20) no_meta))
   \<and> (\<exists>st'. py_mul (Number (1 / 2)) (TelescopeRef 0) store0 = Inr (TelescopeRef 0, st')
          \<and> stored_curve st' (TelescopeRef 0) = Some (uniform_curve (9 / 20) no_meta))
   \<and> (\<exists>st'. py_mul (InstrumentRef 0) (SiteRef 0) store0 = Inr (SiteRef 0, st'))"
proof -
  have wf: "well_formed ramp" "well_formed ramp2"
    by (simp_all add: ramp_def ramp2_def well_formed_def)
  have s: "stored_curve store0 (SiteRef 0) = Some (uniform_curve (9 / 10) no_meta)"
    by (simp add: stored_curve_def store0_def site_obj_def)
  have t: "stored_curve store0 (TelescopeRef 0) = Some (uniform_curve (9 / 10) no_meta)"
    by (simp add: stored_curve_def store0_def tel_obj_def)
  have i: "stored_curve store0 (InstrumentRef 0) = Some (uniform_curve (88209 / 100000) no_meta)"
    by (simp add: stored_curve_def store0_def imager_def)
  note th = multiplication_commutes_where_reflected
    [of ramp ramp2 store0 "1 / 2" 0 0 0 "uniform_curve (9 / 10) no_meta"
        "uniform_curve (9 / 10) no_meta" "uniform_curve (88209 / 100000) no_meta"]
  from th wf have 1: "\<exists>c d. py_mul (CurveV ramp) (CurveV ramp2) store0 = Inr (CurveV c, store0)
          \<and> py_mul (CurveV ramp2) (CurveV ramp) store0 = Inr (CurveV d, store0)
          \<and> points c = points d \<and> lookup_table c = lookup_table d" by blast
  from th s have "\<exists>st'. py_mul (SiteRef 0) (Number (1 / 2)) store0 = Inr (SiteRef 0, st')
          \<and> stored_curve st' (SiteRef 0) = Some (multiply_scalar (uniform_curve (9 / 10) no_meta) (1 / 2))"
    by blast
  moreover from th have "py_mul (Number (1 / 2)) (SiteRef 0) store0 = py_mul (SiteRef 0) (Number (1 / 2)) store0"
    by blast
  ultimately have 2: "\<exists>st'. py_mul (Number (1 / 2)) (SiteRef 0) store0 = Inr (SiteRef 0, st')
          \<and> stored_curve st' (SiteRef 0) = Some (uniform_curve (9 / 20) no_meta)"
    by (simp add: multiply_scalar_uniform)
  from th t have "\<exists>st'. py_mul (TelescopeRef 0) (Number (1 / 2)) store0 = Inr (TelescopeRef 0, st')
          \<and> stored_curve st' (TelescopeRef 0) = Some (multiply_scalar (uniform_curve (9 / 10) no_meta) (1 / 2))"
    by blast
  moreover from th have "py_mul (Number (1 / 2)) (TelescopeRef 0) store0 = py_mul (TelescopeRef 0) (Number (1 / 2)) store0"
    by blast
  ultimately have 3: "\<exists>st'. py_mul (Number (1 / 2)) (TelescopeRef 0) store0 = Inr (TelescopeRef 0, st')
          \<and> stored_curve st' (TelescopeRef 0) = Some (uniform_curve (9 / 20) no_meta)"
    by (simp add: multiply_scalar_uniform)
  from th s i uniform_curve_wf[of "9 / 10" no_meta] uniform_curve_wf[of "88209 / 100000" no_meta]
  have "\<exists>st' p. multiply (uniform_curve (9 / 10) no_meta) (uniform_curve (88209 / 100000) no_meta) = Inr p
           \<and> py_mul (SiteRef 0) (InstrumentRef 0) store0 = Inr (SiteRef 0, st')
           \<and> stored_curve st' (SiteRef 0) = Some p"
    by blast
  moreover from th have "py_mul (InstrumentRef 0) (SiteRef 0) store0 = py_mul (SiteRef 0) (InstrumentRef 0) store0"
    by blast
  ultimately have 4: "\<exists>st'. py_mul (InstrumentRef 0) (SiteRef 0) store0 = Inr (SiteRef 0, st')"
    by auto
  from wf 1 s t i 2 3 4 show ?thesis by blast
qed

text \<open>
  C3 as stated fails for two instruments: the class defines neither \<open>__mul__\<close> nor
  \<open>__rmul__\<close>, so their product is a \<open>TypeError\<close> in either order.
\<close>

theorem instrument_product_counterexample:
  "instruments store0 0 = Some imager \<and> instruments store0 1 = Some imager
   \<and> py_mul (InstrumentRef 0) (InstrumentRef 1) store0 = Inl TypeError
   \<and> py_mul (InstrumentRef 1) (InstrumentRef 0) store0 = Inl TypeError"
  by (simp add: py_mul_def reflected_mul_def store0_def)

subsection \<open>Instrument optics\<close>

lemma py_pow_cases:
  "py_pow x n = (if pow_raises x n then Inl ZeroDivisionError else Inr (power_int x n))"
  by (simp add: py_pow_def pow_raises_def)

lemma Instrument_init_transmission:
  assumes "Instrument_init ev a = Inr inst"
  shows "\<exists>t. compute_transmission inst = Inr t \<and> transmission inst = uniform_curve t no_meta"
proof -
  from assms obtain t tc where
    t: "compute_transmission (instrument_optics a) = Inr t" and
    tc: "construct wavelengths (uniform t) True \<lparr>header = Map.empty, expr = None\<rparr> = Inr tc" and
    i: "transmission inst = tc"
       "num_ar_coatings inst = num_ar_coatings (instrument_optics a)"
       "num_lenses inst = num_lenses (instrument_optics a)"
       "num_mirrors inst = num_mirrors (instrument_optics a)"
       "lens_trans inst = lens_trans (instrument_optics a)"
       "mirror_refl inst = mirror_refl (instrument_optics a)"
       "ar_coating inst = ar_coating (instrument_optics a)"
    by (auto simp: Instrument_init_def split: sum.splits)
  have "compute_transmission inst = compute_transmission (instrument_optics a)"
    by (simp add: compute_transmission_def i cong: sum.case_cong)
  moreover have "tc = uniform_curve t no_meta"
    using tc construct_uniform[of t no_meta] by (simp add: no_meta_def)
  ultimately show ?thesis using t i(1) by simp
qed

text \<open>
  C6 (amended): the internal-transmission scalar is
  \<open>ar_coating ^ num_ar_coatings * lens_trans ^ num_lenses * mirror_refl ^ num_mirrors\<close>
  (and \<open>ZeroDivisionError\<close> when a zero efficiency meets a negative count); a
  constructed instrument stores the uniform curve of that scalar; for 2 coatings of
  0.99, 1 lens of 0.9 and 0 mirrors the scalar is exactly 0.88209.
\<close>

theorem compute_transmission_formula:
  "compute_transmission self =
     (if pow_raises (ar_coating self) (num_ar_coatings self)
         \<or> pow_raises (lens_trans self) (num_lenses self)
         \<or> pow_raises (mirror_refl self) (num_mirrors self)
      then Inl ZeroDivisionError
      else Inr (power_int (ar_coating self) (num_ar_coatings self)
                * power_int (lens_trans self) (num_lenses self)
                * power_int (mirror_refl self) (num_mirrors self)))
   \<and> (Instrument_init ev a = Inr inst \<longrightarrow>
        (\<exists>t. compute_transmission inst = Inr t \<and> transmission inst = uniform_curve t no_meta))
   \<and> compute_transmission
        \<lparr>num_ar_coatings = 2, num_lenses = 1, num_mirrors = 0,
         lens_trans = 9 / 10, mirror_refl = mr, ar_coating = 99 / 100\<rparr>
       = Inr (88209 / 100000)"
proof -
  have 1: "compute_transmission self =
     (if pow_raises (ar_coating self) (num_ar_coatings self)
         \<or> pow_raises (lens_trans self) (num_lenses self)
         \<or> pow_raises (mirror_refl self) (num_mirrors self)
      then Inl ZeroDivisionError
      else Inr (power_int (ar_coating self) (num_ar_coatings self)
                * power_int (lens_trans self) (num_lenses self)
                * power_int (mirror_refl self) (num_mirrors self)))"
    by (simp add: compute_transmission_def py_pow_cases)
  have 2: "Instrument_init ev a = Inr inst \<longrightarrow>
        (\<exists>t. compute_transmission inst = Inr t \<and> transmission inst = uniform_curve t no_meta)"
    using Instrument_init_transmission by blast
  have 3: "compute_transmission
        \<lparr>num_ar_coatings = 2, num_lenses = 1, num_mirrors = 0,
         lens_trans = 9 / 10, mirror_refl = mr, ar_coating = 99 / 100\<rparr>
       = Inr (88209 / 100000)"
    by (simp add: compute_transmission_def py_pow_def power_int_def power2_eq_square)
  from 1 2 3 show ?thesis by blast
qed

theorem compute_transmission_formula_witness:
  "Instrument_init example_env default_instrument_args = Inr imager
   \<and> compute_transmission imager
       = Inr (power_int (99 / 100) 2 * power_int (9 / 10) 1 * power_int (397 / 400) 0)
   \<and> compute_transmission imager = Inr (88209 / 100000)
   \<and> transmission imager = uniform_curve (88209 / 100000) no_meta"
proof -
  note th = compute_transmission_formula[of imager example_env default_instrument_args imager "397 / 400"]
  have i: "Instrument_init example_env default_instrument_args = Inr imager"
    by (rule imager_constructed)
  from th have a: "compute_transmission imager
       = Inr (power_int (99 / 100) 2 * power_int (9 / 10) 1 * power_int (397 / 400) 0)"
    by (simp add: imager_def pow_raises_def)
  have p: "power_int (99 / 100 :: rat) 2 * power_int (9 / 10) 1 * power_int (397 / 400) 0
       = 88209 / 100000"
    by (simp add: power_int_def power2_eq_square)
  note b = a[unfolded p]
  from th i obtain t where t: "compute_transmission imager = Inr t"
    "transmission imager = uniform_curve t no_meta" by blast
  from t(1) b have "t = 88209 / 100000" by simp
  with t(2) have c: "transmission imager = uniform_curve (88209 / 100000) no_meta" by simp
  from i a b c show ?thesis by blast
qed

text \<open>
  C6 as stated fails at its own example: the code's value 0.88209 is not 0.882225, and
  is further from it than 0.0001.
\<close>

theorem compute_transmission_example_counterexample:
  "compute_transmission
     \<lparr>num_ar_coatings = 2, num_lenses = 1, num_mirrors = 0,
      lens_trans = 9 / 10, mirror_refl = 397 / 400, ar_coating = 99 / 100\<rparr>
     = Inr (88209 / 100000)
   \<and> \<bar>(88209 / 100000 :: rat) - 882225 / 1000000\<bar> > 1 / 10000"
  by (simp add: compute_transmission_def py_pow_def power_int_def power2_eq_square)

end
